theory Spec2Isabelle
  imports Main
begin

section \<open>GLSL integer helpers emitted by the shader prefix\<close>

text \<open>
  GLSL \<open>int\<close> division truncates towards zero, whereas \<open>div\<close> on \<open>int\<close> in HOL
  rounds towards minus infinity.  \<open>idiv\<close> is the division the generated shaders
  perform.  Every helper below divides a value of at most texture size, so the
  32-bit range of a \<open>highp int\<close> is never left and the values are kept as
  unbounded integers.
\<close>

definition idiv :: "int \<Rightarrow> int \<Rightarrow> int" where
  "idiv a b = sgn a * sgn b * (\<bar>a\<bar> div \<bar>b\<bar>)"

text \<open>
  \<^verbatim>\<open>int imod(int x, int y) { return x - y * (x / y); }\<close>
  (emitted by both \<open>getShaderPrefix\<close> and \<open>getShaderPrefixCS\<close>).
\<close>

definition imod :: "int \<Rightarrow> int \<Rightarrow> int" where
  "imod x y = x - y * idiv x y"

section \<open>Tiled packed matrix multiplication: program constructors\<close>

text \<open>
  \<open>Math.ceil(a / b)\<close> on non-negative integers with \<open>b > 0\<close>.  (For \<open>b = 0\<close>
  JavaScript yields \<open>Infinity\<close> or \<open>NaN\<close>; no property below is stated there.)
\<close>

definition ceilDiv :: "nat \<Rightarrow> nat \<Rightarrow> nat" where
  "ceilDiv a b = (a + b - 1) div b"

type_synonym shape3 = "nat \<times> nat \<times> nat"

text \<open>
  The fields of a \<open>GPGPUProgram\<close> that the matmul constructors set.  Instead of
  the text of \<open>userCode\<close> the record keeps the two snippets the constructors
  interpolate conditionally, and \<open>consoleError\<close> keeps what was passed to
  \<open>console.error\<close>.  \<open>workPerThread\<close> is \<open>None\<close> for the class without that
  field.
\<close>

record GPGPUProgram =
  variableNames :: "string list"
  usesPackedTextures :: bool
  outputShape :: shape3
  localGroupSize :: "nat list"
  workPerThread :: "nat list option"
  addBiasSnippet :: string
  applyActivationSnippet :: string
  consoleError :: "string list"

text \<open>JavaScript truthiness of the \<open>activation\<close> argument (\<open>null\<close> and the empty string are falsy).\<close>

definition truthy :: "string option \<Rightarrow> bool" where
  "truthy activation = (case activation of None \<Rightarrow> False | Some s \<Rightarrow> s \<noteq> [])"

text \<open>
  \<open>sharedDim = transposeA ? aShape[1] : aShape[2]\<close>,
  \<open>sharedDimensionPacked = Math.ceil(sharedDim / 2)\<close> (the same two lines open all four constructors).
\<close>

definition sharedDimensionPacked :: "shape3 \<Rightarrow> bool \<Rightarrow> nat" where
  "sharedDimensionPacked aShape transposeA =
     ceilDiv (if transposeA then fst (snd aShape) else snd (snd aShape)) 2"

text \<open>
  The constructors return normally on every argument: none of them contains a
  \<open>throw\<close>.  Their result type is still a sum, \<open>Inl\<close> standing for a thrown
  \<open>Error\<close>, so that "the constructor rejects the request" can be stated.
\<close>

definition MatMulPackedProgramCS ::
  "shape3 \<Rightarrow> shape3 \<Rightarrow> bool \<Rightarrow> bool \<Rightarrow> nat \<Rightarrow> bool \<Rightarrow> string option \<Rightarrow> string + GPGPUProgram" where
  "MatMulPackedProgramCS aShape outShape transposeA transposeB TS addBias activation =
     Inr \<lparr> variableNames = [''matrixA'', ''matrixB''] @ (if addBias then [''bias''] else []),
           usesPackedTextures = True,
           outputShape = outShape,
           localGroupSize = [TS, TS],
           workPerThread = None,
           addBiasSnippet = (if addBias then ''result += getBiasAtOutCoords();'' else []),
           applyActivationSnippet = (if truthy activation then ''result = activation(result);'' else []),
           consoleError = [] \<rparr>"

text \<open>
  \<open>RTS = TS / WPT\<close> is a floating-point quotient in the source; it is an integer,
  and equal to \<open>TS div WPT\<close>, exactly when \<open>WPT\<close> divides \<open>TS\<close>.
\<close>

definition MatMulPackedProgramCSV2 ::
  "shape3 \<Rightarrow> shape3 \<Rightarrow> bool \<Rightarrow> bool \<Rightarrow> nat \<Rightarrow> nat \<Rightarrow> bool \<Rightarrow> string option \<Rightarrow> string + GPGPUProgram" where
  "MatMulPackedProgramCSV2 aShape outShape transposeA transposeB TS WPT addBias activation =
     (let RTS = TS div WPT in
      Inr \<lparr> variableNames = [''matrixA'', ''matrixB''] @ (if addBias then [''bias''] else []),
            usesPackedTextures = True,
            outputShape = outShape,
            localGroupSize = [TS, RTS],
            workPerThread = Some [1, WPT],
            addBiasSnippet = (if addBias then ''result += getBiasAtOutCoords();'' else []),
            applyActivationSnippet = (if truthy activation then ''result = activation(result);'' else []),
            consoleError = [] \<rparr>)"

definition MatMulPackedProgramCSV3 ::
  "shape3 \<Rightarrow> shape3 \<Rightarrow> bool \<Rightarrow> bool \<Rightarrow> nat \<Rightarrow> nat \<Rightarrow> bool \<Rightarrow> string option \<Rightarrow> string + GPGPUProgram" where
  "MatMulPackedProgramCSV3 aShape outShape transposeA transposeB TS WPT addBias activation =
     (let RTS = TS div WPT in
      Inr \<lparr> variableNames = [''matrixA'', ''matrixB''],
            usesPackedTextures = True,
            outputShape = outShape,
            localGroupSize = [RTS, RTS],
            workPerThread = Some [WPT, WPT],
            addBiasSnippet = [],
            applyActivationSnippet =
              (if truthy activation
               then ''result[innerRow][innerCol] = activation(result[innerRow][innerCol]);'' else []),
            consoleError = (if addBias then [''bias is not supported''] else []) \<rparr>)"

definition MatMulPackedProgramCSV4 ::
  "shape3 \<Rightarrow> shape3 \<Rightarrow> bool \<Rightarrow> bool \<Rightarrow> nat \<Rightarrow> nat \<Rightarrow> nat \<Rightarrow> bool \<Rightarrow> string option \<Rightarrow> string + GPGPUProgram" where
  "MatMulPackedProgramCSV4 aShape outShape transposeA transposeB TS TSK WPT addBias activation =
     (let RTSM = TS div WPT; RTSN = TS div WPT in
      Inr \<lparr> variableNames = [''matrixA'', ''matrixB''],
            usesPackedTextures = True,
            outputShape = outShape,
            localGroupSize = [RTSN, RTSM],
            workPerThread = Some [WPT, WPT],
            addBiasSnippet = [],
            applyActivationSnippet =
              (if truthy activation then ''acc[wm][wn] = activation(acc[wm][wn]);'' else []),
            consoleError = (if addBias then [''bias is not supported''] else []) \<rparr>)"

section \<open>Tiled packed matrix multiplication: the tile loop\<close>

text \<open>
  \<open>int numTiles = ${Math.ceil(sharedDimensionPacked / TS)}\<close> and
  \<open>int sizeTS = (t == (numTiles - 1) && ${sharedDimensionPacked % TS} != 0) ?
  ${sharedDimensionPacked % TS} : ${TS}\<close>.  The first three variants tile the
  shared dimension by \<open>TS\<close>, the fourth by \<open>TSK\<close>; \<open>tileK\<close> is that tile size.
\<close>

datatype variant = CS | CSV2 | CSV3 | CSV4


definition numTiles :: "nat \<Rightarrow> nat \<Rightarrow> nat" where
  "numTiles sdp TS = ceilDiv sdp TS"

definition sizeTS :: "nat \<Rightarrow> nat \<Rightarrow> nat \<Rightarrow> nat" where
  "sizeTS sdp TS t = (if t = numTiles sdp TS - 1 \<and> sdp mod TS \<noteq> 0 then sdp mod TS else TS)"

text \<open>
  The packed positions of the shared dimension that the accumulation loops
  visit, in order: \<open>for t < numTiles\<close>, \<open>for i < sizeTS\<close>, position \<open>TS * t + i\<close>.
\<close>

definition accumulated :: "nat \<Rightarrow> nat \<Rightarrow> nat list" where
  "accumulated sdp TS =
     concat (map (\<lambda>t. map (\<lambda>i. TS * t + i) [0..<sizeTS sdp TS t]) [0..<numTiles sdp TS])"

section \<open>Tiled packed matrix multiplication: the generated kernels\<close>

text \<open>
  The kernels are modelled for \<open>addBias = false\<close> and \<open>activation = null\<close>.
  A \<open>vec4\<close> is kept over an arbitrary carrier \<open>'a\<close> with \<open>+\<close>, \<open>*\<close> and \<open>0\<close>
  (exact arithmetic in place of 32-bit floats).
\<close>

datatype 'a vec4 = Vec4 (vx: 'a) (vy: 'a) (vz: 'a) (vw: 'a)

definition vadd :: "'a::plus vec4 \<Rightarrow> 'a vec4 \<Rightarrow> 'a vec4" where
  "vadd a b = Vec4 (vx a + vx b) (vy a + vy b) (vz a + vz b) (vw a + vw b)"

definition vmul :: "'a::times vec4 \<Rightarrow> 'a vec4 \<Rightarrow> 'a vec4" where
  "vmul a b = Vec4 (vx a * vx b) (vy a * vy b) (vz a * vz b) (vw a * vw b)"

definition vzero :: "'a::zero vec4" where
  "vzero = Vec4 0 0 0 0"

text \<open>
  \<open>aSwizzle = transposeA ? ['a.xxyy', 'a.zzww'] : ['a.xxzz', 'a.yyww']\<close>,
  \<open>bSwizzle = transposeB ? ['b.xzxz', 'b.ywyw'] : ['b.xyxy', 'b.zwzw']\<close>.
\<close>

definition aSwizzle :: "bool \<Rightarrow> 'a vec4 \<Rightarrow> 'a vec4 \<times> 'a vec4" where
  "aSwizzle transposeA a =
     (if transposeA
      then (Vec4 (vx a) (vx a) (vy a) (vy a), Vec4 (vz a) (vz a) (vw a) (vw a))
      else (Vec4 (vx a) (vx a) (vz a) (vz a), Vec4 (vy a) (vy a) (vw a) (vw a)))"

definition bSwizzle :: "bool \<Rightarrow> 'a vec4 \<Rightarrow> 'a vec4 \<times> 'a vec4" where
  "bSwizzle transposeB b =
     (if transposeB
      then (Vec4 (vx b) (vz b) (vx b) (vz b), Vec4 (vy b) (vw b) (vy b) (vw b))
      else (Vec4 (vx b) (vy b) (vx b) (vy b), Vec4 (vz b) (vw b) (vz b) (vw b)))"

text \<open>\<open>result += (aSwizzle[0] * bSwizzle[0]) + (aSwizzle[1] * bSwizzle[1])\<close>\<close>

definition madd :: "bool \<Rightarrow> bool \<Rightarrow> 'a::{plus,times} vec4 \<Rightarrow> 'a vec4 \<Rightarrow> 'a vec4 \<Rightarrow> 'a vec4" where
  "madd transposeA transposeB result a b =
     vadd result (vadd (vmul (fst (aSwizzle transposeA a)) (fst (bSwizzle transposeB b)))
                       (vmul (snd (aSwizzle transposeA a)) (snd (bSwizzle transposeB b))))"

text \<open>
  What a kernel calls but does not define: the two packed samplers
  \<open>getMatrixA(b, row, col)\<close> and \<open>getMatrixB(b, row, col)\<close>, and the batch
  component \<open>getOutputCoords().x\<close>, a function of \<open>gl_GlobalInvocationID.xy\<close>.
\<close>

record 'a matmulEnv =
  getMatrixA :: "nat \<Rightarrow> nat \<Rightarrow> nat \<Rightarrow> 'a vec4"
  getMatrixB :: "nat \<Rightarrow> nat \<Rightarrow> nat \<Rightarrow> 'a vec4"
  getOutputCoordsX :: "nat \<Rightarrow> nat \<Rightarrow> nat"

text \<open>
  A \<open>shared vec4 X[m][n]\<close> array is a function of its two indices, and the pair
  \<open>(Asub, Bsub)\<close> is the shared memory of a workgroup.  An image store is a pair of
  the position \<open>ivec2(x, y)\<close> and the value.  A thread of a workgroup is named by
  \<open>(gl_LocalInvocationID.y, gl_LocalInvocationID.x)\<close>, a workgroup by
  \<open>(gl_WorkGroupID.x, gl_WorkGroupID.y)\<close>; the workgroup size is the program's
  \<open>localGroupSize\<close>.

  The kernels are barrier-synchronised: in every tile iteration all threads of the
  group store into shared memory, pass \<open>barrier()\<close>, accumulate from shared memory,
  and pass \<open>barrier()\<close> again.  A tile step therefore first runs the load phase of
  every thread and then the accumulation phase of every thread.
\<close>

type_synonym 'a tile = "nat \<Rightarrow> nat \<Rightarrow> 'a vec4"
type_synonym 'a shared = "'a tile \<times> 'a tile"
type_synonym 'a store = "(nat \<times> nat) \<times> 'a vec4"

definition upd2 :: "(nat \<Rightarrow> nat \<Rightarrow> 'v) \<Rightarrow> nat \<Rightarrow> nat \<Rightarrow> 'v \<Rightarrow> (nat \<Rightarrow> nat \<Rightarrow> 'v)" where
  "upd2 arr i j v = arr(i := (arr i)(j := v))"

definition localThreads :: "nat \<Rightarrow> nat \<Rightarrow> (nat \<times> nat) list" where
  "localThreads sizeY sizeX = List.product [0..<sizeY] [0..<sizeX]"

subsection \<open>\<open>MatMulPackedProgramCS\<close>: one output texel per thread, group \<open>[TS, TS]\<close>\<close>

definition loadCS ::
  "'a matmulEnv \<Rightarrow> bool \<Rightarrow> bool \<Rightarrow> nat \<Rightarrow> nat \<times> nat \<Rightarrow> nat \<Rightarrow> nat \<times> nat \<Rightarrow> 'a shared \<Rightarrow> 'a shared" where
  "loadCS env transposeA transposeB TS wg t th sh =
     (let row = fst th; col = snd th;
          globalRow = TS * snd wg + row;
          globalCol = TS * fst wg + col;
          b = getOutputCoordsX env globalCol globalRow;
          tileRow = TS * t + row;
          tileCol = TS * t + col
      in (upd2 (fst sh) row col
            (if transposeA then getMatrixA env b (tileCol * 2) (globalRow * 2)
             else getMatrixA env b (globalRow * 2) (tileCol * 2)),
          upd2 (snd sh) row col
            (if transposeB then getMatrixB env b (globalCol * 2) (tileRow * 2)
             else getMatrixB env b (tileRow * 2) (globalCol * 2))))"

definition accumulateCS ::
  "bool \<Rightarrow> bool \<Rightarrow> nat \<Rightarrow> nat \<Rightarrow> nat \<Rightarrow> 'a::{plus,times} shared \<Rightarrow> nat \<times> nat \<Rightarrow> 'a vec4 \<Rightarrow> 'a vec4" where
  "accumulateCS transposeA transposeB sdp TS t sh th result =
     fold (\<lambda>i r. madd transposeA transposeB r (fst sh (fst th) i) (snd sh i (snd th)))
          [0..<sizeTS sdp TS t] result"

definition tileStepCS ::
  "'a::{plus,times} matmulEnv \<Rightarrow> bool \<Rightarrow> bool \<Rightarrow> nat \<Rightarrow> nat \<Rightarrow> nat \<times> nat \<Rightarrow> nat \<Rightarrow>
   'a shared \<times> (nat \<times> nat \<Rightarrow> 'a vec4) \<Rightarrow> 'a shared \<times> (nat \<times> nat \<Rightarrow> 'a vec4)" where
  "tileStepCS env transposeA transposeB sdp TS wg t st =
     (let sh = fold (loadCS env transposeA transposeB TS wg t) (localThreads TS TS) (fst st)
      in (sh, \<lambda>th. accumulateCS transposeA transposeB sdp TS t sh th (snd st th)))"

text \<open>
  \<open>sh0\<close> is the content of shared memory when the kernel starts (unspecified in GLSL).
  \<open>vec4 result = vec4(0)\<close>; the final \<open>setOutput(result)\<close> is
  \<open>imageStore(outputColor, ivec2(gl_GlobalInvocationID.xy), result)\<close>, not guarded.
\<close>

definition mainCS ::
  "'a::{plus,times,zero} matmulEnv \<Rightarrow> bool \<Rightarrow> bool \<Rightarrow> nat \<Rightarrow> nat \<Rightarrow> nat \<times> nat \<Rightarrow> 'a shared \<Rightarrow> 'a store list" where
  "mainCS env transposeA transposeB sdp TS wg sh0 =
     (let fin = fold (tileStepCS env transposeA transposeB sdp TS wg) [0..<numTiles sdp TS]
                  (sh0, \<lambda>th. vzero)
      in map (\<lambda>th. ((TS * fst wg + snd th, TS * snd wg + fst th), snd fin th)) (localThreads TS TS))"

subsection \<open>\<open>MatMulPackedProgramCSV2\<close>: \<open>WPT\<close> output rows per thread, group \<open>[TS, RTS]\<close>\<close>

definition loadCSV2 ::
  "'a matmulEnv \<Rightarrow> bool \<Rightarrow> bool \<Rightarrow> nat \<Rightarrow> nat \<Rightarrow> nat \<times> nat \<Rightarrow> nat \<Rightarrow> nat \<times> nat \<Rightarrow> 'a shared \<Rightarrow> 'a shared" where
  "loadCSV2 env transposeA transposeB TS WPT wg t th sh0 =
     (let RTS = TS div WPT; row = fst th; col = snd th;
          globalRow = TS * snd wg + row;
          globalCol = TS * fst wg + col;
          b = getOutputCoordsX env (TS * fst wg + col) (RTS * snd wg + row);
          tileRow = TS * t + row;
          tileCol = TS * t + col
      in fold (\<lambda>w sh.
           (upd2 (fst sh) (row + w * RTS) col
              (if transposeA then getMatrixA env b (tileCol * 2) ((globalRow + w * RTS) * 2)
               else getMatrixA env b ((globalRow + w * RTS) * 2) (tileCol * 2)),
            upd2 (snd sh) (row + w * RTS) col
              (if transposeB then getMatrixB env b (globalCol * 2) ((tileRow + w * RTS) * 2)
               else getMatrixB env b ((tileRow + w * RTS) * 2) (globalCol * 2))))
         [0..<WPT] sh0)"

definition accumulateCSV2 ::
  "bool \<Rightarrow> bool \<Rightarrow> nat \<Rightarrow> nat \<Rightarrow> nat \<Rightarrow> nat \<Rightarrow> 'a::{plus,times} shared \<Rightarrow> nat \<times> nat \<Rightarrow>
   (nat \<Rightarrow> 'a vec4) \<Rightarrow> (nat \<Rightarrow> 'a vec4)" where
  "accumulateCSV2 transposeA transposeB sdp TS WPT t sh th result0 =
     (let RTS = TS div WPT; row = fst th; col = snd th
      in fold (\<lambda>i result.
           (let b = snd sh i col
            in fold (\<lambda>w res.
                 (let a = fst sh (row + w * RTS) i
                  in res(w := madd transposeA transposeB (res w) a b)))
               [0..<WPT] result))
         [0..<sizeTS sdp TS t] result0)"

definition tileStepCSV2 ::
  "'a::{plus,times} matmulEnv \<Rightarrow> bool \<Rightarrow> bool \<Rightarrow> nat \<Rightarrow> nat \<Rightarrow> nat \<Rightarrow> nat \<times> nat \<Rightarrow> nat \<Rightarrow>
   'a shared \<times> (nat \<times> nat \<Rightarrow> nat \<Rightarrow> 'a vec4) \<Rightarrow> 'a shared \<times> (nat \<times> nat \<Rightarrow> nat \<Rightarrow> 'a vec4)" where
  "tileStepCSV2 env transposeA transposeB sdp TS WPT wg t st =
     (let sh = fold (loadCSV2 env transposeA transposeB TS WPT wg t)
                 (localThreads (TS div WPT) TS) (fst st)
      in (sh, \<lambda>th. accumulateCSV2 transposeA transposeB sdp TS WPT t sh th (snd st th)))"

text \<open>
  The kernel declares \<open>vec4 result[WPT];\<close> and never assigns it before the first
  \<open>result[w] += \<dots>\<close>: \<open>uninit th\<close> is the content of that array in thread \<open>th\<close>
  when the tile loop starts.  The final
  \<open>imageStore(outputColor, ivec2(globalCol, globalRow + w*RTS), result[w])\<close> is not
  guarded.
\<close>

definition mainCSV2 ::
  "'a::{plus,times} matmulEnv \<Rightarrow> bool \<Rightarrow> bool \<Rightarrow> nat \<Rightarrow> nat \<Rightarrow> nat \<Rightarrow> nat \<times> nat \<Rightarrow> 'a shared \<Rightarrow>
   (nat \<times> nat \<Rightarrow> nat \<Rightarrow> 'a vec4) \<Rightarrow> 'a store list" where
  "mainCSV2 env transposeA transposeB sdp TS WPT wg sh0 uninit =
     (let RTS = TS div WPT;
          fin = fold (tileStepCSV2 env transposeA transposeB sdp TS WPT wg) [0..<numTiles sdp TS]
                  (sh0, uninit)
      in concat (map (\<lambda>th.
           map (\<lambda>w. ((TS * fst wg + snd th, TS * snd wg + fst th + w * RTS), snd fin th w)) [0..<WPT])
         (localThreads RTS TS)))"

subsection \<open>\<open>MatMulPackedProgramCSV3\<close>: \<open>WPT \<times> WPT\<close> outputs per thread, group \<open>[RTS, RTS]\<close>\<close>

definition loadCSV3 ::
  "'a matmulEnv \<Rightarrow> bool \<Rightarrow> bool \<Rightarrow> nat \<Rightarrow> nat \<Rightarrow> nat \<times> nat \<Rightarrow> nat \<Rightarrow> nat \<times> nat \<Rightarrow> 'a shared \<Rightarrow> 'a shared" where
  "loadCSV3 env transposeA transposeB TS WPT wg t th sh0 =
     (let RTS = TS div WPT; row = fst th; col = snd th;
          globalRow = TS * snd wg + row;
          globalCol = TS * fst wg + col;
          b = getOutputCoordsX env (RTS * fst wg + col) (RTS * snd wg + row);
          tileRow = TS * t + row;
          tileCol = TS * t + col
      in fold (\<lambda>innerRow sh1.
           (let inputRow = row + innerRow * RTS
            in fold (\<lambda>innerCol sh.
                 (let inputCol = col + innerCol * RTS
                  in (upd2 (fst sh) inputRow inputCol
                        (if transposeA
                         then getMatrixA env b ((tileCol + innerCol * RTS) * 2) ((globalRow + innerRow * RTS) * 2)
                         else getMatrixA env b ((globalRow + innerRow * RTS) * 2) ((tileCol + innerCol * RTS) * 2)),
                      upd2 (snd sh) inputRow inputCol
                        (if transposeB
                         then getMatrixB env b ((globalCol + innerCol * RTS) * 2) ((tileRow + innerRow * RTS) * 2)
                         else getMatrixB env b ((tileRow + innerRow * RTS) * 2) ((globalCol + innerCol * RTS) * 2)))))
               [0..<WPT] sh1))
         [0..<WPT] sh0)"

text \<open>
  The thread-local state is the pair of \<open>vec4 Breg[WPT]\<close> and
  \<open>vec4 result[WPT][WPT]\<close>.
\<close>

definition accumulateCSV3 ::
  "bool \<Rightarrow> bool \<Rightarrow> nat \<Rightarrow> nat \<Rightarrow> nat \<Rightarrow> nat \<Rightarrow> 'a::{plus,times} shared \<Rightarrow> nat \<times> nat \<Rightarrow>
   (nat \<Rightarrow> 'a vec4) \<times> 'a tile \<Rightarrow> (nat \<Rightarrow> 'a vec4) \<times> 'a tile" where
  "accumulateCSV3 transposeA transposeB sdp TS WPT t sh th st0 =
     (let RTS = TS div WPT; row = fst th; col = snd th
      in fold (\<lambda>k st.
           (let Breg = fold (\<lambda>inner B. B(inner := snd sh k (col + inner * RTS))) [0..<WPT] (fst st)
            in (Breg,
                fold (\<lambda>innerRow res1.
                  (let a = fst sh (row + innerRow * RTS) k
                   in fold (\<lambda>innerCol res.
                        (let b = Breg innerCol
                         in upd2 res innerRow innerCol
                              (madd transposeA transposeB (res innerRow innerCol) a b)))
                      [0..<WPT] res1))
                [0..<WPT] (snd st))))
         [0..<sizeTS sdp TS t] st0)"

definition tileStepCSV3 ::
  "'a::{plus,times} matmulEnv \<Rightarrow> bool \<Rightarrow> bool \<Rightarrow> nat \<Rightarrow> nat \<Rightarrow> nat \<Rightarrow> nat \<times> nat \<Rightarrow> nat \<Rightarrow>
   'a shared \<times> (nat \<times> nat \<Rightarrow> (nat \<Rightarrow> 'a vec4) \<times> 'a tile) \<Rightarrow>
   'a shared \<times> (nat \<times> nat \<Rightarrow> (nat \<Rightarrow> 'a vec4) \<times> 'a tile)" where
  "tileStepCSV3 env transposeA transposeB sdp TS WPT wg t st =
     (let sh = fold (loadCSV3 env transposeA transposeB TS WPT wg t)
                 (localThreads (TS div WPT) (TS div WPT)) (fst st)
      in (sh, \<lambda>th. accumulateCSV3 transposeA transposeB sdp TS WPT t sh th (snd st th)))"

text \<open>
  The first loop nest of \<open>main\<close> sets \<open>result[innerRow][innerCol] = vec4(0)\<close> for
  \<open>innerRow, innerCol < WPT\<close>; \<open>uninit\<close> is what \<open>Breg\<close> and \<open>result\<close> hold before.
\<close>

definition initCSV3 :: "nat \<Rightarrow> 'a::zero tile \<Rightarrow> 'a tile" where
  "initCSV3 WPT result0 =
     fold (\<lambda>innerRow res1. fold (\<lambda>innerCol res. upd2 res innerRow innerCol vzero) [0..<WPT] res1)
          [0..<WPT] result0"

text \<open>
  The store loop: \<open>if (outputRow >= ${Math.ceil(outputShape[1] / 2)}) continue;\<close> and
  \<open>if (outputCol >= ${Math.ceil(outputShape[2] / 2)}) continue;\<close> before the
  \<open>imageStore\<close>.
\<close>

definition storeCSV3 :: "nat \<Rightarrow> nat \<Rightarrow> shape3 \<Rightarrow> nat \<times> nat \<Rightarrow> nat \<times> nat \<Rightarrow> 'a tile \<Rightarrow> 'a store list" where
  "storeCSV3 TS WPT outShape wg th result =
     (let RTS = TS div WPT;
          globalRow = TS * snd wg + fst th;
          globalCol = TS * fst wg + snd th
      in concat (map (\<lambda>innerRow.
           (let outputRow = globalRow + innerRow * RTS
            in if outputRow \<ge> ceilDiv (fst (snd outShape)) 2 then []
               else concat (map (\<lambda>innerCol.
                      (let outputCol = globalCol + innerCol * RTS
                       in if outputCol \<ge> ceilDiv (snd (snd outShape)) 2 then []
                          else [((outputCol, outputRow), result innerRow innerCol)]))
                    [0..<WPT])))
         [0..<WPT]))"

definition mainCSV3 ::
  "'a::{plus,times,zero} matmulEnv \<Rightarrow> bool \<Rightarrow> bool \<Rightarrow> nat \<Rightarrow> shape3 \<Rightarrow> nat \<Rightarrow> nat \<Rightarrow> nat \<times> nat \<Rightarrow>
   'a shared \<Rightarrow> (nat \<times> nat \<Rightarrow> (nat \<Rightarrow> 'a vec4) \<times> 'a tile) \<Rightarrow> 'a store list" where
  "mainCSV3 env transposeA transposeB sdp outShape TS WPT wg sh0 uninit =
     (let fin = fold (tileStepCSV3 env transposeA transposeB sdp TS WPT wg) [0..<numTiles sdp TS]
                  (sh0, \<lambda>th. (fst (uninit th), initCSV3 WPT (snd (uninit th))))
      in concat (map (\<lambda>th. storeCSV3 TS WPT outShape wg th (snd (snd fin th)))
                     (localThreads (TS div WPT) (TS div WPT))))"

subsection \<open>\<open>MatMulPackedProgramCSV4\<close>: shared dimension tiled by \<open>TSK\<close>, \<open>LPTA\<close> loads per thread\<close>

text \<open>
  \<open>[TSM, TSN] = [TS, TS]\<close>, \<open>[WPTM, WPTN] = [WPT, WPT]\<close>,
  \<open>LPTA = TSK * WPTM * WPTN / TSN\<close>, \<open>[RTSM, RTSN] = [TSM / WPTM, TSN / WPTN]\<close>;
  the quotients are integers when \<open>WPT\<close> divides \<open>TS\<close> and \<open>TS\<close> divides
  \<open>TSK * WPT * WPT\<close>.  \<open>id\<close> is never negative, so \<open>id / TSK\<close> and
  \<open>imod(id, TSK)\<close> are \<open>div\<close> and \<open>mod\<close>.
\<close>

definition loadCSV4 ::
  "'a matmulEnv \<Rightarrow> bool \<Rightarrow> bool \<Rightarrow> nat \<Rightarrow> nat \<Rightarrow> nat \<Rightarrow> nat \<times> nat \<Rightarrow> nat \<Rightarrow> nat \<times> nat \<Rightarrow> 'a shared \<Rightarrow> 'a shared" where
  "loadCSV4 env transposeA transposeB TS TSK WPT wg t th sh0 =
     (let RTSM = TS div WPT; RTSN = TS div WPT;
          LPTA = TSK * WPT * WPT div TS;
          tidm = fst th; tidn = snd th;
          offsetM = TS * snd wg;
          offsetN = TS * fst wg;
          b = getOutputCoordsX env (RTSN * fst wg + tidn) (RTSM * snd wg + tidm)
      in fold (\<lambda>i sh.
           (let tid = tidm * RTSN + tidn;
                ident = i * RTSN * RTSM + tid;
                row = ident div TSK;
                col = nat (imod (int ident) (int TSK));
                tiledIndex = TSK * t + col
            in (upd2 (fst sh) row col
                  (if transposeA then getMatrixA env b (tiledIndex * 2) ((offsetM + row) * 2)
                   else getMatrixA env b ((offsetM + row) * 2) (tiledIndex * 2)),
                upd2 (snd sh) col row
                  (if transposeB then getMatrixB env b ((offsetN + row) * 2) (tiledIndex * 2)
                   else getMatrixB env b (tiledIndex * 2) ((offsetN + row) * 2)))))
         [0..<LPTA] sh0)"

definition accumulateCSV4 ::
  "bool \<Rightarrow> bool \<Rightarrow> nat \<Rightarrow> nat \<Rightarrow> nat \<Rightarrow> nat \<Rightarrow> nat \<Rightarrow> 'a::{plus,times} shared \<Rightarrow> nat \<times> nat \<Rightarrow>
   (nat \<Rightarrow> 'a vec4) \<times> 'a tile \<Rightarrow> (nat \<Rightarrow> 'a vec4) \<times> 'a tile" where
  "accumulateCSV4 transposeA transposeB sdp TS TSK WPT t sh th st0 =
     (let RTSM = TS div WPT; RTSN = TS div WPT; tidm = fst th; tidn = snd th
      in fold (\<lambda>k st.
           (let Breg = fold (\<lambda>wn B. (let col = tidn + wn * RTSN in B(wn := snd sh k col)))
                         [0..<WPT] (fst st)
            in (Breg,
                fold (\<lambda>wm acc1.
                  (let row = tidm + wm * RTSM;
                       a = fst sh row k
                   in fold (\<lambda>wn acc.
                        (let b = Breg wn
                         in upd2 acc wm wn (madd transposeA transposeB (acc wm wn) a b)))
                      [0..<WPT] acc1))
                [0..<WPT] (snd st))))
         [0..<sizeTS sdp TSK t] st0)"

definition tileStepCSV4 ::
  "'a::{plus,times} matmulEnv \<Rightarrow> bool \<Rightarrow> bool \<Rightarrow> nat \<Rightarrow> nat \<Rightarrow> nat \<Rightarrow> nat \<Rightarrow> nat \<times> nat \<Rightarrow> nat \<Rightarrow>
   'a shared \<times> (nat \<times> nat \<Rightarrow> (nat \<Rightarrow> 'a vec4) \<times> 'a tile) \<Rightarrow>
   'a shared \<times> (nat \<times> nat \<Rightarrow> (nat \<Rightarrow> 'a vec4) \<times> 'a tile)" where
  "tileStepCSV4 env transposeA transposeB sdp TS TSK WPT wg t st =
     (let sh = fold (loadCSV4 env transposeA transposeB TS TSK WPT wg t)
                 (localThreads (TS div WPT) (TS div WPT)) (fst st)
      in (sh, \<lambda>th. accumulateCSV4 transposeA transposeB sdp TS TSK WPT t sh th (snd st th)))"

definition storeCSV4 :: "nat \<Rightarrow> nat \<Rightarrow> shape3 \<Rightarrow> nat \<times> nat \<Rightarrow> nat \<times> nat \<Rightarrow> 'a tile \<Rightarrow> 'a store list" where
  "storeCSV4 TS WPT outShape wg th acc =
     (let RTSM = TS div WPT; RTSN = TS div WPT;
          tidm = fst th; tidn = snd th;
          offsetM = TS * snd wg;
          offsetN = TS * fst wg
      in concat (map (\<lambda>wm.
           (let globalRow = offsetM + tidm + wm * RTSM
            in if globalRow \<ge> ceilDiv (fst (snd outShape)) 2 then []
               else concat (map (\<lambda>wn.
                      (let globalCol = offsetN + tidn + wn * RTSN
                       in if globalCol \<ge> ceilDiv (snd (snd outShape)) 2 then []
                          else [((globalCol, globalRow), acc wm wn)]))
                    [0..<WPT])))
         [0..<WPT]))"

definition mainCSV4 ::
  "'a::{plus,times,zero} matmulEnv \<Rightarrow> bool \<Rightarrow> bool \<Rightarrow> nat \<Rightarrow> shape3 \<Rightarrow> nat \<Rightarrow> nat \<Rightarrow> nat \<Rightarrow> nat \<times> nat \<Rightarrow>
   'a shared \<Rightarrow> (nat \<times> nat \<Rightarrow> (nat \<Rightarrow> 'a vec4) \<times> 'a tile) \<Rightarrow> 'a store list" where
  "mainCSV4 env transposeA transposeB sdp outShape TS TSK WPT wg sh0 uninit =
     (let fin = fold (tileStepCSV4 env transposeA transposeB sdp TS TSK WPT wg) [0..<numTiles sdp TSK]
                  (sh0, \<lambda>th. (fst (uninit th), initCSV3 WPT (snd (uninit th))))
      in concat (map (\<lambda>th. storeCSV4 TS WPT outShape wg th (snd (snd fin th)))
                     (localThreads (TS div WPT) (TS div WPT))))"

subsection \<open>The untiled packed product and the reference product\<close>

text \<open>
  The texels a thread multiplies at position \<open>k\<close> of the packed shared dimension: all
  four kernels read \<open>matrixA\<close> at \<open>(globalRow * 2, k * 2)\<close> (swapped under
  \<open>transposeA\<close>) and \<open>matrixB\<close> at \<open>(k * 2, globalCol * 2)\<close> (swapped under
  \<open>transposeB\<close>).  \<open>packedDot\<close> is the accumulation without tiling, started from
  \<open>init\<close>.
\<close>

definition aTexel :: "'a matmulEnv \<Rightarrow> bool \<Rightarrow> nat \<Rightarrow> nat \<Rightarrow> nat \<Rightarrow> 'a vec4" where
  "aTexel env transposeA b globalRow k =
     (if transposeA then getMatrixA env b (k * 2) (globalRow * 2) else getMatrixA env b (globalRow * 2) (k * 2))"

definition bTexel :: "'a matmulEnv \<Rightarrow> bool \<Rightarrow> nat \<Rightarrow> nat \<Rightarrow> nat \<Rightarrow> 'a vec4" where
  "bTexel env transposeB b globalCol k =
     (if transposeB then getMatrixB env b (globalCol * 2) (k * 2) else getMatrixB env b (k * 2) (globalCol * 2))"

definition packedDot :: "'a::{plus,times} matmulEnv \<Rightarrow> bool \<Rightarrow> bool \<Rightarrow> nat \<Rightarrow> nat \<Rightarrow> nat \<Rightarrow> nat \<Rightarrow> 'a vec4 \<Rightarrow> 'a vec4" where
  "packedDot env transposeA transposeB sdp b globalRow globalCol init =
     fold (\<lambda>k r. madd transposeA transposeB r (aTexel env transposeA b globalRow k) (bTexel env transposeB b globalCol k))
          [0..<sdp] init"

text \<open>
  The reference of the specification, a naive triple loop over batch, row and column
  with the inner sum \<open>C[b,i,j] = \<Sum>k<K. op(A)[b,i,k] * op(B)[b,k,j]\<close>, where
  \<open>op\<close> swaps the two inner indices of a transposed operand.
\<close>

definition matMulReference ::
  "bool \<Rightarrow> bool \<Rightarrow> (nat \<Rightarrow> nat \<Rightarrow> nat \<Rightarrow> 'a) \<Rightarrow> (nat \<Rightarrow> nat \<Rightarrow> nat \<Rightarrow> 'a) \<Rightarrow> nat \<Rightarrow> nat \<Rightarrow> nat \<Rightarrow> nat \<Rightarrow>
   'a::{plus,times,zero}" where
  "matMulReference transposeA transposeB A B K b i j =
     fold (\<lambda>k s. s + (if transposeA then A b k i else A b i k) * (if transposeB then B b j k else B b k j))
          [0..<K] 0"

text \<open>
  A packed sampler returns the texel that holds the addressed element: the
  \<open>2 \<times> 2\<close> block of the two innermost dimensions, in the channel order
  \<open>x = (r, c)\<close>, \<open>y = (r, c + 1)\<close>, \<open>z = (r + 1, c)\<close>, \<open>w = (r + 1, c + 1)\<close>.
\<close>

definition packedTexel :: "(nat \<Rightarrow> nat \<Rightarrow> nat \<Rightarrow> 'a) \<Rightarrow> nat \<Rightarrow> nat \<Rightarrow> nat \<Rightarrow> 'a vec4" where
  "packedTexel M b row col =
     (let r = 2 * (row div 2); c = 2 * (col div 2)
      in Vec4 (M b r c) (M b r (c + 1)) (M b (r + 1) c) (M b (r + 1) (c + 1)))"

definition packedEnv ::
  "(nat \<Rightarrow> nat \<Rightarrow> nat \<Rightarrow> 'a) \<Rightarrow> (nat \<Rightarrow> nat \<Rightarrow> nat \<Rightarrow> 'a) \<Rightarrow> (nat \<Rightarrow> nat \<Rightarrow> nat) \<Rightarrow> 'a matmulEnv" where
  "packedEnv A B batch =
     \<lparr> getMatrixA = packedTexel A, getMatrixB = packedTexel B, getOutputCoordsX = batch \<rparr>"

definition referenceTexel ::
  "bool \<Rightarrow> bool \<Rightarrow> (nat \<Rightarrow> nat \<Rightarrow> nat \<Rightarrow> 'a) \<Rightarrow> (nat \<Rightarrow> nat \<Rightarrow> nat \<Rightarrow> 'a) \<Rightarrow> nat \<Rightarrow> nat \<Rightarrow> nat \<Rightarrow> nat \<Rightarrow>
   'a::{plus,times,zero} vec4" where
  "referenceTexel transposeA transposeB A B K b globalRow globalCol =
     packedTexel (\<lambda>b i j. matMulReference transposeA transposeB A B K b i j) b (globalRow * 2) (globalCol * 2)"

subsection \<open>A concrete environment for running the kernels\<close>

text \<open>
  Every texel of \<open>matrixA\<close> is the block \<open>(1 2; 3 4)\<close>, every texel of \<open>matrixB\<close>
  the identity block, the batch is 0, shared memory starts zeroed.
\<close>

definition exampleEnv :: "int matmulEnv" where
  "exampleEnv = \<lparr> getMatrixA = (\<lambda>b r c. Vec4 1 2 3 4), getMatrixB = (\<lambda>b r c. Vec4 1 0 0 1),
                   getOutputCoordsX = (\<lambda>x y. 0) \<rparr>"

definition exampleShared :: "int shared" where
  "exampleShared = (\<lambda>r c. vzero, \<lambda>r c. vzero)"

text \<open>
  Two matrices whose packed view is \<open>exampleEnv\<close>: \<open>exampleA\<close> repeats the block
  \<open>(1 2; 3 4)\<close>, \<open>exampleB\<close> repeats the identity block.
\<close>

definition exampleA :: "nat \<Rightarrow> nat \<Rightarrow> nat \<Rightarrow> int" where
  "exampleA b i k = int (2 * (i mod 2) + k mod 2 + 1)"

definition exampleB :: "nat \<Rightarrow> nat \<Rightarrow> nat \<Rightarrow> int" where
  "exampleB b k j = (if k mod 2 = j mod 2 then 1 else 0)"

section \<open>Shader compiler: shapes and emitted index helpers\<close>

record ShapeInfo =
  logicalShape :: "nat list"
  texShape :: "nat \<times> nat"
  isUniform :: bool
  isPacked :: bool
  flatOffset :: "nat option"

record InputInfo =
  name :: string
  shapeInfo :: ShapeInfo

text \<open>
  The errors the generators throw:
  \<^verbatim>\<open>`${shape.length}-D input sampling is not yet supported`\<close>,
  \<^verbatim>\<open>`${outShape.length}-D output sampling is not yet supported`\<close> and
  \<^verbatim>\<open>`GPU for rank ${rank} is not yet supported`\<close>.
\<close>

datatype error =
    InputSamplingNotSupported nat
  | OutputSamplingNotSupported nat
  | RankNotSupported nat

text \<open>
  Modelled from the spec: \<open>util.sizeFromShape\<close>, \<open>util.arraysEqual\<close> and
  \<open>util.squeezeShape\<close> are imported from a module that is not among the sources.
  The size of a shape is the product of its axes; two arrays are equal when they
  agree element by element; squeezing elides every axis of logical size 1 and
  keeps the indices of the remaining axes as \<open>keptDims\<close>.
\<close>

definition sizeFromShape :: "nat list \<Rightarrow> nat" where
  "sizeFromShape shape = prod_list shape"

definition arraysEqual :: "nat list \<Rightarrow> nat \<times> nat \<Rightarrow> bool" where
  "arraysEqual shape tex = (shape = [fst tex, snd tex])"

definition squeezeShape :: "nat list \<Rightarrow> nat list \<times> nat list" where
  "squeezeShape shape =
     (filter (\<lambda>s. s \<noteq> 1) shape, filter (\<lambda>i. shape ! i \<noteq> 1) [0..<length shape])"

text \<open>Returns a copy of the input info with the squeezed logical shape.\<close>

definition squeezeInputInfo :: "InputInfo \<Rightarrow> nat list \<Rightarrow> InputInfo" where
  "squeezeInputInfo inInfo squeezedShape =
     inInfo\<lparr> shapeInfo := (shapeInfo inInfo)\<lparr> logicalShape := squeezedShape \<rparr> \<rparr>"

definition getSqueezedParams :: "'p list \<Rightarrow> nat list \<Rightarrow> 'p list" where
  "getSqueezedParams params keptDims = map (\<lambda>d. params ! d) keptDims"

text \<open>
  The compute-shader flavour of the index helpers (\<open>SAMPLE_1D_SNIPPET_CS\<close>,
  \<open>SAMPLE_2D_SNIPPET_CS\<close>, \<open>SAMPLE_3D_SNIPPET_CS\<close>); an \<open>ivec2\<close> is the pair
  \<open>(x, y) = (texC, texR)\<close>.  The texture-sampling flavour computes the same
  \<open>texC\<close> and \<open>texR\<close> and returns the centre of that texel,
  \<open>(vec2(texC, texR) + halfCR) / vec2(texNumC, texNumR)\<close>.
\<close>

definition uvFromFlat :: "int \<Rightarrow> int \<Rightarrow> int \<Rightarrow> int \<times> int" where
  "uvFromFlat texNumR texNumC index =
     (let texR = idiv index texNumC;
          texC = index - texR * texNumC
      in (texC, texR))"

definition packedUVfrom1D :: "int \<Rightarrow> int \<Rightarrow> int \<Rightarrow> int \<times> int" where
  "packedUVfrom1D texNumR texNumC index =
     (let texelIndex = idiv index 2;
          texR = idiv texelIndex texNumC;
          texC = texelIndex - texR * texNumC
      in (texC, texR))"

definition packedUVfrom2D :: "int \<Rightarrow> int \<Rightarrow> int \<Rightarrow> int \<Rightarrow> int \<Rightarrow> int \<times> int" where
  "packedUVfrom2D texelsInLogicalRow texNumR texNumC row col =
     (let texelIndex = idiv row 2 * texelsInLogicalRow + idiv col 2;
          texR = idiv texelIndex texNumC;
          texC = texelIndex - texR * texNumC
      in (texC, texR))"

definition packedUVfrom3D :: "int \<Rightarrow> int \<Rightarrow> int \<Rightarrow> int \<Rightarrow> int \<Rightarrow> int \<Rightarrow> int \<Rightarrow> int \<times> int" where
  "packedUVfrom3D texNumR texNumC texelsInBatch texelsInLogicalRow b row col =
     (let index = b * texelsInBatch + idiv row 2 * texelsInLogicalRow + idiv col 2;
          texR = idiv index texNumC;
          texC = index - texR * texNumC
      in (texC, texR))"

text \<open>
  \<open>SHADER_PACKED_PREFIX\<close>.  \<open>frag.r\<close>, \<open>.g\<close>, \<open>.b\<close>, \<open>.a\<close> are the components
  \<open>x\<close>, \<open>y\<close>, \<open>z\<close>, \<open>w\<close>.  The callers pass integer coordinates converted to
  \<open>vec2\<close>; GLSL \<open>mod(x, 2.)\<close> is \<open>x - 2 * floor(x / 2)\<close>, which on integers is
  \<open>mod\<close> of HOL.
\<close>

definition getChannel :: "'a vec4 \<Rightarrow> int \<times> int \<Rightarrow> 'a" where
  "getChannel frag innerDims =
     (let modCoord = (fst innerDims mod 2, snd innerDims mod 2)
      in if fst modCoord = 0
         then (if snd modCoord = 0 then vx frag else vy frag)
         else (if snd modCoord = 0 then vz frag else vw frag))"

definition getChannel1 :: "'a vec4 \<Rightarrow> int \<Rightarrow> 'a" where
  "getChannel1 frag dim = (let modCoord = dim mod 2 in if modCoord = 0 then vx frag else vy frag)"

section \<open>Shader compiler: input samplers of the compute-shader path (unpacked)\<close>

text \<open>
  A generated sampler \<open>float get<Name>(int row, \<dots>)\<close> is modelled by what it
  fetches, as a function of the value of the uniform \<open>offset<Name>\<close> and of its
  integer arguments: the texel \<open>ivec2(x, y)\<close> handed to \<open>texelFetch\<close>, the element
  of the uniform array it returns, nothing when the loop of a uniform sampler ends
  without \<open>return\<close>, or the name of a helper it calls that no prefix defines.
  \<open>IllTyped\<close> stands for a call with the wrong number of arguments.  Conditions on
  the shape are decided when the text is generated and stand outside the
  \<open>\<lambda>\<close>; the arithmetic inside is what the emitted GLSL computes.
\<close>

datatype fetch = Texel int int | Uniform int | NoReturn | Unlinked string | IllTyped

type_synonym accessor = "int \<Rightarrow> int list \<Rightarrow> fetch"

definition texelOf :: "int \<times> int \<Rightarrow> fetch" where
  "texelOf uv = Texel (fst uv) (snd uv)"

definition getUniformSampler :: "InputInfo \<Rightarrow> int \<Rightarrow> fetch" where
  "getUniformSampler inInfo index =
     (let inSize = sizeFromShape (logicalShape (shapeInfo inInfo))
      in if inSize = 1 then Uniform 0
         else if 0 \<le> index \<and> index < int inSize then Uniform index else NoReturn)"

definition getSamplerScalarCS :: "InputInfo \<Rightarrow> accessor" where
  "getSamplerScalarCS inInfo =
     (let texNumR = fst (texShape (shapeInfo inInfo)); texNumC = snd (texShape (shapeInfo inInfo))
      in if isUniform (shapeInfo inInfo) then (\<lambda>offset args. if args = [] then Uniform 0 else IllTyped)
         else if texNumR = 1 \<and> texNumC = 1 then (\<lambda>offset args. if args = [] then Texel 0 0 else IllTyped)
         else (\<lambda>offset args. if args = [] then texelOf (uvFromFlat (int texNumR) (int texNumC) offset)
                               else IllTyped))"

definition getSampler1DCS :: "InputInfo \<Rightarrow> accessor" where
  "getSampler1DCS inInfo =
     (let tNumR = fst (texShape (shapeInfo inInfo)); tNumC = snd (texShape (shapeInfo inInfo))
      in if isUniform (shapeInfo inInfo)
         then (\<lambda>offset args. case args of [index] \<Rightarrow> getUniformSampler inInfo index | _ \<Rightarrow> IllTyped)
         else if tNumC = 1 \<and> tNumR = 1
         then (\<lambda>offset args. case args of [index] \<Rightarrow> Texel 0 0 | _ \<Rightarrow> IllTyped)
         else if tNumC = 1
         then (\<lambda>offset args. case args of [index] \<Rightarrow> Texel 0 (index + offset) | _ \<Rightarrow> IllTyped)
         else if tNumR = 1
         then (\<lambda>offset args. case args of [index] \<Rightarrow> Texel (index + offset) 0 | _ \<Rightarrow> IllTyped)
         else (\<lambda>offset args. case args of
                 [index] \<Rightarrow> texelOf (uvFromFlat (int tNumR) (int tNumC) (index + offset))
               | _ \<Rightarrow> IllTyped))"

text \<open>
  The wrapper a generator emits around the sampler of the squeezed shape:
  \<open>float get<Name>(int row, int col) { return get<Name>(<kept parameters>); }\<close>.
\<close>

definition squeezedSampler :: "accessor \<Rightarrow> nat \<Rightarrow> nat list \<Rightarrow> accessor" where
  "squeezedSampler f rank keptDims =
     (\<lambda>offset args. if length args = rank then f offset (getSqueezedParams args keptDims) else IllTyped)"

function getSamplerFromInInfoCS :: "InputInfo \<Rightarrow> error + accessor"
  and getSampler2DCS :: "InputInfo \<Rightarrow> error + accessor"
  and getSampler3DCS :: "InputInfo \<Rightarrow> error + accessor"
  and getSampler4DCS :: "InputInfo \<Rightarrow> error + accessor"
where
  "getSamplerFromInInfoCS inInfo =
     (if length (logicalShape (shapeInfo inInfo)) = 0 then Inr (getSamplerScalarCS inInfo)
      else if length (logicalShape (shapeInfo inInfo)) = 1 then Inr (getSampler1DCS inInfo)
      else if length (logicalShape (shapeInfo inInfo)) = 2 then getSampler2DCS inInfo
      else if length (logicalShape (shapeInfo inInfo)) = 3 then getSampler3DCS inInfo
      else if length (logicalShape (shapeInfo inInfo)) = 4 then getSampler4DCS inInfo
      else Inl (InputSamplingNotSupported (length (logicalShape (shapeInfo inInfo)))))"
| "getSampler2DCS inInfo =
     (if arraysEqual (logicalShape (shapeInfo inInfo)) (texShape (shapeInfo inInfo))
      then Inr (\<lambda>offset args. case args of [row, col] \<Rightarrow> Texel col row | _ \<Rightarrow> IllTyped)
      else if length (fst (squeezeShape (logicalShape (shapeInfo inInfo))))
                < length (logicalShape (shapeInfo inInfo))
      then (case getSamplerFromInInfoCS
                   (squeezeInputInfo inInfo (fst (squeezeShape (logicalShape (shapeInfo inInfo))))) of
              Inl e \<Rightarrow> Inl e
            | Inr f \<Rightarrow> Inr (squeezedSampler f 2 (snd (squeezeShape (logicalShape (shapeInfo inInfo))))))
      else if isUniform (shapeInfo inInfo)
      then Inr (\<lambda>offset args. case args of
                  [row, col] \<Rightarrow>
                    getUniformSampler inInfo (row * int (logicalShape (shapeInfo inInfo) ! 1) + col)
                | _ \<Rightarrow> IllTyped)
      else if snd (texShape (shapeInfo inInfo)) = 1
      then Inr (\<lambda>offset args. case args of
                  [row, col] \<Rightarrow>
                    (let index = row * int (logicalShape (shapeInfo inInfo) ! 1) + col + offset
                     in Texel 0 index)
                | _ \<Rightarrow> IllTyped)
      else if fst (texShape (shapeInfo inInfo)) = 1
      then Inr (\<lambda>offset args. case args of
                  [row, col] \<Rightarrow>
                    (let index = row * int (logicalShape (shapeInfo inInfo) ! 1) + col + offset
                     in Texel index 0)
                | _ \<Rightarrow> IllTyped)
      else Inr (\<lambda>offset args. case args of
                  [row, col] \<Rightarrow>
                    (let index = row * int (logicalShape (shapeInfo inInfo) ! 1) + col + offset
                     in texelOf (uvFromFlat (int (fst (texShape (shapeInfo inInfo))))
                                   (int (snd (texShape (shapeInfo inInfo)))) index))
                | _ \<Rightarrow> IllTyped))"
| "getSampler3DCS inInfo =
     (if length (fst (squeezeShape (logicalShape (shapeInfo inInfo))))
           < length (logicalShape (shapeInfo inInfo))
      then (case getSamplerFromInInfoCS
                   (squeezeInputInfo inInfo (fst (squeezeShape (logicalShape (shapeInfo inInfo))))) of
              Inl e \<Rightarrow> Inl e
            | Inr f \<Rightarrow> Inr (squeezedSampler f 3 (snd (squeezeShape (logicalShape (shapeInfo inInfo))))))
      else if snd (texShape (shapeInfo inInfo))
                = logicalShape (shapeInfo inInfo) ! 1 * logicalShape (shapeInfo inInfo) ! 2
      then Inr (\<lambda>offset args. case args of
                  [row, col, depth] \<Rightarrow>
                    (let texR = row;
                         texC = col * int (logicalShape (shapeInfo inInfo) ! 2) + depth
                     in Texel texC texR)
                | _ \<Rightarrow> IllTyped)
      else if snd (texShape (shapeInfo inInfo)) = logicalShape (shapeInfo inInfo) ! 2
      then Inr (\<lambda>offset args. case args of
                  [row, col, depth] \<Rightarrow>
                    (let texR = row * int (logicalShape (shapeInfo inInfo) ! 1) + col;
                         texC = depth
                     in Texel texC texR)
                | _ \<Rightarrow> IllTyped)
      else Inr (\<lambda>offset args. case args of
                  [row, col, depth] \<Rightarrow> Unlinked ''UVfrom3D''
                | _ \<Rightarrow> IllTyped))"
| "getSampler4DCS inInfo =
     (if length (fst (squeezeShape (logicalShape (shapeInfo inInfo))))
           < length (logicalShape (shapeInfo inInfo))
      then (case getSamplerFromInInfoCS
                   (squeezeInputInfo inInfo (fst (squeezeShape (logicalShape (shapeInfo inInfo))))) of
              Inl e \<Rightarrow> Inl e
            | Inr f \<Rightarrow> Inr (squeezedSampler f 4 (snd (squeezeShape (logicalShape (shapeInfo inInfo))))))
      else if snd (texShape (shapeInfo inInfo))
                = logicalShape (shapeInfo inInfo) ! 1
                  * (logicalShape (shapeInfo inInfo) ! 2 * logicalShape (shapeInfo inInfo) ! 3)
      then Inr (\<lambda>offset args. case args of
                  [row, col, depth, depth2] \<Rightarrow>
                    (let stride2 = int (logicalShape (shapeInfo inInfo) ! 3);
                         stride1 = int (logicalShape (shapeInfo inInfo) ! 2) * stride2;
                         texR = row;
                         texC = col * stride1 + depth * stride2 + depth2
                     in Texel texC texR)
                | _ \<Rightarrow> IllTyped)
      else if snd (texShape (shapeInfo inInfo)) = logicalShape (shapeInfo inInfo) ! 3
      then Inr (\<lambda>offset args. case args of
                  [row, col, depth, depth2] \<Rightarrow>
                    (let texR = row * int (logicalShape (shapeInfo inInfo) ! 1 * logicalShape (shapeInfo inInfo) ! 2)
                                + col * int (logicalShape (shapeInfo inInfo) ! 2) + depth;
                         texC = depth2
                     in Texel texC texR)
                | _ \<Rightarrow> IllTyped)
      else Inr (\<lambda>offset args. case args of
                  [row, col, depth, depth2] \<Rightarrow> Unlinked ''UVfrom4D''
                | _ \<Rightarrow> IllTyped))"
  by pat_completeness auto
termination
  by (relation "measure (\<lambda>x. case x of
          Inl (Inl i) \<Rightarrow> 2 * length (logicalShape (shapeInfo i)) + 1
        | Inl (Inr i) \<Rightarrow> 2 * length (logicalShape (shapeInfo i))
        | Inr (Inl i) \<Rightarrow> 2 * length (logicalShape (shapeInfo i))
        | Inr (Inr i) \<Rightarrow> 2 * length (logicalShape (shapeInfo i)))")
     (auto simp: squeezeInputInfo_def)

declare getSamplerFromInInfoCS.simps [simp del] getSampler2DCS.simps [simp del]
  getSampler3DCS.simps [simp del] getSampler4DCS.simps [simp del]

section \<open>Shader compiler: input samplers of the texture-sampling path (unpacked)\<close>

text \<open>
  The texture-sampling generators compute part of their addresses in floating
  point.  Of their result only the template branch is kept: a \<open>Snippet\<close> names the
  function and the branch that produced the text, and lists the snippets embedded
  in it (the sampler of the squeezed shape).
\<close>

datatype snippet = Snippet string "snippet list"





section \<open>Shader compiler: output coordinate decoders (unpacked)\<close>

text \<open>
  A compute-shader decoder \<open>getOutputCoords()\<close> is modelled by the coordinates it
  returns as a function of \<open>gl_GlobalInvocationID.xy = (x, y)\<close>.  A decoder of the
  texture-sampling path reads the varying \<open>resultUV\<close> and multiplies it in
  floating point; of it only the template branch is kept.  The scalar decoder
  returns the \<open>int\<close> 0, which stands for the empty coordinate.
\<close>

datatype decoder = Indexed "int \<times> int \<Rightarrow> int list" | Sampled snippet

definition getOutputScalarCoords :: decoder where
  "getOutputScalarCoords = Indexed (\<lambda>gid. [])"





definition getOutput5DCoords :: "nat list \<Rightarrow> nat \<times> nat \<Rightarrow> decoder" where
  "getOutput5DCoords shape tex = Sampled (Snippet ''getOutput5DCoords'' [])"

definition getOutput6DCoords :: "nat list \<Rightarrow> nat \<times> nat \<Rightarrow> decoder" where
  "getOutput6DCoords shape tex = Sampled (Snippet ''getOutput6DCoords'' [])"


definition getOutput1DCoordsCS :: "nat list \<Rightarrow> nat \<times> nat \<Rightarrow> decoder" where
  "getOutput1DCoordsCS shape tex =
     (if fst tex = 1 then Indexed (\<lambda>gid. [fst gid])
      else if snd tex = 1 then Indexed (\<lambda>gid. [snd gid])
      else Indexed (\<lambda>gid. [snd gid * int (snd tex) + fst gid]))"

definition getOutput2DCoordsCS :: "nat list \<Rightarrow> nat \<times> nat \<Rightarrow> decoder" where
  "getOutput2DCoordsCS shape tex =
     (if arraysEqual shape tex then Indexed (\<lambda>gid. [snd gid, fst gid])
      else if shape ! 1 = 1
      then Indexed (\<lambda>gid. (let index = snd gid * int (snd tex) + fst gid in [index, 0]))
      else if shape ! 0 = 1
      then Indexed (\<lambda>gid. (let index = snd gid * int (snd tex) + fst gid in [0, index]))
      else Indexed (\<lambda>gid.
             (let index = snd gid * int (snd tex) + fst gid;
                  r = idiv index (int (shape ! 1));
                  c = index - r * int (shape ! 1)
              in [r, c])))"

definition getOutput3DCoordsCS :: "nat list \<Rightarrow> nat \<times> nat \<Rightarrow> decoder" where
  "getOutput3DCoordsCS shape tex =
     (let stride0 = int (shape ! 1 * shape ! 2);
          stride1 = int (shape ! 2)
      in Indexed (\<lambda>gid.
           (let index = snd gid * int (snd tex) + fst gid;
                r = idiv index stride0;
                index1 = index - r * stride0;
                c = idiv index1 stride1;
                d = index1 - c * stride1
            in [r, c, d])))"

definition getOutput4DCoordsCS :: "nat list \<Rightarrow> nat \<times> nat \<Rightarrow> decoder" where
  "getOutput4DCoordsCS shape tex =
     (let stride2 = int (shape ! 3);
          stride1 = int (shape ! 2) * stride2;
          stride0 = int (shape ! 1) * stride1
      in Indexed (\<lambda>gid.
           (let index = snd gid * int (snd tex) + fst gid;
                r = idiv index stride0;
                index1 = index - r * stride0;
                c = idiv index1 stride1;
                index2 = index1 - c * stride1;
                d = idiv index2 stride2;
                d2 = index2 - d * stride2
            in [r, c, d, d2])))"

text \<open>Ranks 5 and 6 fall back to the decoders of the texture-sampling path.\<close>

definition getOutputSamplingSnippetCS :: "nat list \<Rightarrow> nat \<times> nat \<Rightarrow> error + decoder" where
  "getOutputSamplingSnippetCS outShape outTexShape =
     (if length outShape = 0 then Inr getOutputScalarCoords
      else if length outShape = 1 then Inr (getOutput1DCoordsCS outShape outTexShape)
      else if length outShape = 2 then Inr (getOutput2DCoordsCS outShape outTexShape)
      else if length outShape = 3 then Inr (getOutput3DCoordsCS outShape outTexShape)
      else if length outShape = 4 then Inr (getOutput4DCoordsCS outShape outTexShape)
      else if length outShape = 5 then Inr (getOutput5DCoords outShape outTexShape)
      else if length outShape = 6 then Inr (getOutput6DCoords outShape outTexShape)
      else Inl (OutputSamplingNotSupported (length outShape)))"

section \<open>Shader compiler: reading an input at the output coordinates\<close>

text \<open>
  Modelled from the spec: \<open>getBroadcastDims\<close> is imported from
  \<open>ops/broadcast_util\<close>, which is not among the sources.  With the shapes aligned
  at their last axes, it lists the axes of the input that have size 1 where the
  aligned output axis is larger than 1.
\<close>

definition getBroadcastDims :: "nat list \<Rightarrow> nat list \<Rightarrow> nat list" where
  "getBroadcastDims inShape outShape =
     filter (\<lambda>d. inShape ! d = 1 \<and> length inShape - d \<le> length outShape \<and>
                 1 < outShape ! (length outShape - (length inShape - d)))
            [0..<length inShape]"

definition getCoordsDataType :: "nat \<Rightarrow> error + string" where
  "getCoordsDataType rank =
     (if rank \<le> 1 then Inr ''int''
      else if rank = 2 then Inr ''ivec2''
      else if rank = 3 then Inr ''ivec3''
      else if rank = 4 then Inr ''ivec4''
      else if rank = 5 then Inr ''ivec5''
      else if rank = 6 then Inr ''ivec6''
      else Inl (RankNotSupported rank))"

text \<open>
  What a generated \<open>get<Name>AtOutCoords()\<close> does: it fetches the texel of the input
  at the position of the output texel itself (\<open>SameTexel\<close>: \<open>resultUV\<close>, or
  \<open>gl_GlobalInvocationID.xy\<close>); or it calls \<open>get<Name>\<close> with arguments computed
  from \<open>getOutputCoords()\<close> (\<open>ViaSampler\<close>); or it computes a texel position from
  \<open>gl_GlobalInvocationID.xy\<close> alone (\<open>FlatIndexed\<close>).
\<close>

datatype atOutCoords =
    SameTexel
  | ViaSampler "int list \<Rightarrow> int list"
  | FlatIndexed "int \<times> int \<Rightarrow> int \<times> int"

text \<open>
  The coordinate part that \<open>getSamplerAtOutputCoords\<close> and
  \<open>getPackedSamplerAtOutputCoords\<close> share: \<open>coordsSnippet\<close> zeroes components of
  \<open>coords\<close>, \<open>unpackedCoordsSnippet\<close> selects the arguments.  For an output of
  rank 0 or 1 \<open>coords\<close> is an \<open>int\<close>, here a list of at most one element.
\<close>

definition coordsSnippet :: "nat list \<Rightarrow> nat list \<Rightarrow> int list \<Rightarrow> int list" where
  "coordsSnippet inShape outShape coords =
     (let inRank = length inShape; outRank = length outShape;
          broadcastDims = getBroadcastDims inShape outShape;
          rankDiff = outRank - inRank
      in if inRank = 0 then coords
         else if outRank < 2 \<and> length broadcastDims \<ge> 1 then map (\<lambda>c. 0) coords
         else fold (\<lambda>d cs. cs[d + rankDiff := 0]) broadcastDims coords)"

definition unpackedCoordsSnippet :: "nat list \<Rightarrow> nat list \<Rightarrow> int list \<Rightarrow> int list" where
  "unpackedCoordsSnippet inShape outShape coords =
     (let inRank = length inShape; outRank = length outShape;
          rankDiff = outRank - inRank
      in if outRank < 2 \<and> inRank > 0 then coords
         else map (\<lambda>i. coords ! (i + rankDiff)) [0..<inRank])"

definition getSamplerAtOutputCoords :: "InputInfo \<Rightarrow> ShapeInfo \<Rightarrow> error + atOutCoords" where
  "getSamplerAtOutputCoords inputInfo outShapeInfo =
     (let outTexShape = texShape outShapeInfo;
          inTexShape = texShape (shapeInfo inputInfo);
          inRank = length (logicalShape (shapeInfo inputInfo));
          outRank = length (logicalShape outShapeInfo)
      in if \<not> isUniform (shapeInfo inputInfo) \<and> inRank = outRank \<and>
            flatOffset (shapeInfo inputInfo) = None \<and> inTexShape = outTexShape
         then Inr SameTexel
         else (case getCoordsDataType outRank of
                 Inl e \<Rightarrow> Inl e
               | Inr ty \<Rightarrow>
                   Inr (ViaSampler (\<lambda>coords.
                     unpackedCoordsSnippet (logicalShape (shapeInfo inputInfo)) (logicalShape outShapeInfo)
                       (coordsSnippet (logicalShape (shapeInfo inputInfo)) (logicalShape outShapeInfo)
                          coords)))))"

definition getSamplerAtOutputCoordsCS :: "InputInfo \<Rightarrow> ShapeInfo \<Rightarrow> error + atOutCoords" where
  "getSamplerAtOutputCoordsCS inputInfo outShapeInfo =
     (let outTexShape = texShape outShapeInfo;
          inTexShape = texShape (shapeInfo inputInfo);
          inRank = length (logicalShape (shapeInfo inputInfo));
          outRank = length (logicalShape outShapeInfo)
      in if \<not> isUniform (shapeInfo inputInfo) \<and> inRank = outRank \<and>
            flatOffset (shapeInfo inputInfo) = None \<and> inTexShape = outTexShape
         then Inr SameTexel
         else Inr (FlatIndexed (\<lambda>gid.
                (let index = snd gid * int (snd outTexShape) + fst gid;
                     texR = idiv index (int (snd inTexShape));
                     texC = index - texR * int (snd inTexShape)
                 in (texC, texR)))))"

text \<open>
  The packed variant also rearranges the channels of the fetched texel
  (\<open>output\<close>); it is used by both paths.
\<close>

definition packedOutput :: "nat list \<Rightarrow> nat list \<Rightarrow> 'a::zero vec4 \<Rightarrow> 'a vec4" where
  "packedOutput inShape outShape outputValue =
     (let inRank = length inShape; outRank = length outShape;
          broadcastDims = getBroadcastDims inShape outShape
      in if inRank = 1 \<and> outRank > 1
         then Vec4 (vx outputValue) (vy outputValue) (vx outputValue) (vy outputValue)
         else if inRank = 0 \<and> outRank > 0
         then (if outRank = 1 then Vec4 (vx outputValue) (vx outputValue) 0 0
               else Vec4 (vx outputValue) (vx outputValue) (vx outputValue) (vx outputValue))
         else if broadcastDims \<noteq> []
         then (let rows = inRank - 2; cols = inRank - 1
               in if rows \<in> set broadcastDims \<and> cols \<in> set broadcastDims
                  then Vec4 (vx outputValue) (vx outputValue) (vx outputValue) (vx outputValue)
                  else if rows \<in> set broadcastDims
                  then Vec4 (vx outputValue) (vy outputValue) (vx outputValue) (vy outputValue)
                  else if cols \<in> set broadcastDims
                  then Vec4 (vx outputValue) (vx outputValue) (vz outputValue) (vz outputValue)
                  else outputValue)
         else outputValue)"

definition getPackedSamplerAtOutputCoords :: "InputInfo \<Rightarrow> ShapeInfo \<Rightarrow> error + atOutCoords" where
  "getPackedSamplerAtOutputCoords inputInfo outShapeInfo =
     (case getCoordsDataType (length (logicalShape outShapeInfo)) of
        Inl e \<Rightarrow> Inl e
      | Inr ty \<Rightarrow>
          Inr (ViaSampler (\<lambda>coords.
            unpackedCoordsSnippet (logicalShape (shapeInfo inputInfo)) (logicalShape outShapeInfo)
              (coordsSnippet (logicalShape (shapeInfo inputInfo)) (logicalShape outShapeInfo) coords))))"

text \<open>
  Running a generated \<open>get<Name>AtOutCoords()\<close> in the invocation \<open>gid\<close>, given the
  generated sampler of the input and the generated decoder of the output.
\<close>

definition fetchAtOutCoords :: "atOutCoords \<Rightarrow> accessor \<Rightarrow> (int \<times> int \<Rightarrow> int list) \<Rightarrow> int \<Rightarrow> int \<times> int \<Rightarrow> fetch" where
  "fetchAtOutCoords a sampler getOutputCoords offset gid =
     (case a of
        SameTexel \<Rightarrow> Texel (fst gid) (snd gid)
      | ViaSampler args \<Rightarrow> sampler offset (args (getOutputCoords gid))
      | FlatIndexed uv \<Rightarrow> texelOf (uv gid))"

text \<open>
  \<open>getInputSamplingSnippetCS\<close> for an unpacked program: the sampler of the input,
  followed by its accessor at the output coordinates when the input's rank does
  not exceed the output's.
\<close>

definition getInputSamplingSnippetCS ::
  "InputInfo \<Rightarrow> ShapeInfo \<Rightarrow> error + accessor \<times> atOutCoords option" where
  "getInputSamplingSnippetCS inInfo outShapeInfo =
     (case getSamplerFromInInfoCS inInfo of
        Inl e \<Rightarrow> Inl e
      | Inr sampler \<Rightarrow>
          if length (logicalShape (shapeInfo inInfo)) \<le> length (logicalShape outShapeInfo)
          then (case getSamplerAtOutputCoordsCS inInfo outShapeInfo of
                  Inl e \<Rightarrow> Inl e
                | Inr a \<Rightarrow> Inr (sampler, Some a))
          else Inr (sampler, None))"

subsection \<open>A bias vector added to a matrix\<close>

text \<open>
  An input of logical shape \<open>[3]\<close> in a \<open>1 \<times> 3\<close> texture, read while producing an
  output of logical shape \<open>[2, 3]\<close> in a \<open>2 \<times> 3\<close> texture.
\<close>

definition biasInfo :: InputInfo where
  "biasInfo = \<lparr> name = ''bias'', shapeInfo = \<lparr> logicalShape = [3], texShape = (1, 3),
                   isUniform = False, isPacked = False, flatOffset = None \<rparr> \<rparr>"

definition matrixOutInfo :: ShapeInfo where
  "matrixOutInfo = \<lparr> logicalShape = [2, 3], texShape = (2, 3),
                      isUniform = False, isPacked = False, flatOffset = None \<rparr>"

text \<open>
  An input of logical shape \<open>[2, 1]\<close> in a \<open>2 \<times> 1\<close> texture, read for the same output.
\<close>

definition columnInfo :: InputInfo where
  "columnInfo = \<lparr> name = ''column'', shapeInfo = \<lparr> logicalShape = [2, 1], texShape = (2, 1),
                   isUniform = False, isPacked = False, flatOffset = None \<rparr> \<rparr>"

subsection \<open>Assembling an unpacked compute shader\<close>

text \<open>
  \<open>makeCSShader\<close> for an unpacked program with an unpacked output: the input
  sampling snippets are generated first, in the order of the inputs, then the
  output decoder; the first exception thrown ends the build.  Of the assembled
  source the per-input snippets and the decoder are kept.
\<close>

fun inputSamplingSnippetsCS ::
  "InputInfo list \<Rightarrow> ShapeInfo \<Rightarrow> error + (accessor \<times> atOutCoords option) list" where
  "inputSamplingSnippetsCS [] outShapeInfo = Inr []"
| "inputSamplingSnippetsCS (x # xs) outShapeInfo =
     (case getInputSamplingSnippetCS x outShapeInfo of
        Inl e \<Rightarrow> Inl e
      | Inr s \<Rightarrow> (case inputSamplingSnippetsCS xs outShapeInfo of
                    Inl e \<Rightarrow> Inl e
                  | Inr ss \<Rightarrow> Inr (s # ss)))"

definition makeCSShader ::
  "InputInfo list \<Rightarrow> ShapeInfo \<Rightarrow> error + (accessor \<times> atOutCoords option) list \<times> decoder" where
  "makeCSShader inputsInfo outShapeInfo =
     (case inputSamplingSnippetsCS inputsInfo outShapeInfo of
        Inl e \<Rightarrow> Inl e
      | Inr inputSamplingSnippet \<Rightarrow>
          (case getOutputSamplingSnippetCS (logicalShape outShapeInfo) (texShape outShapeInfo) of
             Inl e \<Rightarrow> Inl e
           | Inr outputSamplingSnippet \<Rightarrow> Inr (inputSamplingSnippet, outputSamplingSnippet)))"

text \<open>
  For a shader with a single input: the output coordinates of the invocation
  \<open>gid\<close> and what \<open>get<Name>AtOutCoords()\<close> fetches there (with
  \<open>offset<Name> = 0\<close>).
\<close>

definition atOutCoordsCS :: "InputInfo \<Rightarrow> ShapeInfo \<Rightarrow> int \<times> int \<Rightarrow> (int list \<times> fetch) option" where
  "atOutCoordsCS inInfo outShapeInfo gid =
     (case makeCSShader [inInfo] outShapeInfo of
        Inr ([(sampler, Some a)], Indexed getOutputCoords) \<Rightarrow>
          Some (getOutputCoords gid, fetchAtOutCoords a sampler getOutputCoords 0 gid)
      | _ \<Rightarrow> None)"

section \<open>Shader compiler: encoding a coordinate and decoding it back\<close>

text \<open>
  The row-major position of a coordinate in a logical shape, and the coordinates
  within the bounds of a shape.
\<close>

definition flatIndex :: "nat list \<Rightarrow> int list \<Rightarrow> int" where
  "flatIndex shape cs = foldl (\<lambda>acc p. acc * int (fst p) + snd p) 0 (zip shape cs)"

definition inBounds :: "nat list \<Rightarrow> int list \<Rightarrow> bool" where
  "inBounds shape cs \<longleftrightarrow>
     length cs = length shape \<and> list_all (\<lambda>p. 0 \<le> snd p \<and> snd p < int (fst p)) (zip shape cs)"

text \<open>
  A texel \<open>(x, y)\<close> of a texture with \<open>texShape = (R, C)\<close> is the texel of a
  coordinate when it lies in a row of the texture and its row-major position
  \<open>y * C + x\<close> is the row-major position of the coordinate in the logical shape.
\<close>

definition texelOfCoordinate :: "ShapeInfo \<Rightarrow> int list \<Rightarrow> int \<Rightarrow> int \<Rightarrow> bool" where
  "texelOfCoordinate info cs x y \<longleftrightarrow>
     0 \<le> x \<and> x < int (snd (texShape info)) \<and> 0 \<le> y \<and>
     y * int (snd (texShape info)) + x = flatIndex (logicalShape info) cs"

section \<open>Cache-tiled convolution kernels\<close>

text \<open>
  The fields of \<open>Conv2DInfo\<close> that the two constructors read (\<open>padTop\<close> and
  \<open>padLeft\<close> are \<open>padInfo.top\<close> and \<open>padInfo.left\<close>).  The values are
  interpolated into GLSL \<open>int\<close> arithmetic and kept as integers.
\<close>

record Conv2DInfo =
  padTop :: int
  padLeft :: int
  strideHeight :: int
  strideWidth :: int
  dilationHeight :: int
  dilationWidth :: int
  filterHeight :: int
  filterWidth :: int
  inChannels :: int
  outChannels :: int
  inHeight :: int
  inWidth :: int

text \<open>
  The shared array \<open>cache[CACHE_H][CACHE_W * CACHE_C]\<close> maps a cell
  \<open>(row, column)\<close> to the value the fill phase stored there; \<open>None\<close> is a cell the
  fill phase left untouched.  \<open>getX\<close> is the generated sampler of the input.
  \<open>first\<close> is the result of \<open>getFirstThreadOutputCoords()\<close>, a helper that is not
  among the sources: the output coordinates \<open>(batch, row, col, channel)\<close> of the
  first thread of the workgroup.  Both kernels use the workgroup size
  \<open>[8, 7]\<close> (times \<open>channelMul\<close> in x for the depthwise kernel).
\<close>

type_synonym 'v cache = "int \<times> int \<Rightarrow> 'v option"
type_synonym coords4 = "int \<times> int \<times> int \<times> int"

subsection \<open>\<open>Conv2DProgramCS\<close>\<close>

definition CACHE_W :: "Conv2DInfo \<Rightarrow> int" where
  "CACHE_W ci = (7 - 1) * strideWidth ci + filterWidth ci + (filterWidth ci - 1) * (dilationWidth ci - 1)"

definition CACHE_HWC :: "Conv2DInfo \<Rightarrow> int" where
  "CACHE_HWC ci = filterHeight ci * CACHE_W ci * inChannels ci"

text \<open>The body of the fill loop for one value of \<open>index\<close>.\<close>

definition fillStep :: "Conv2DInfo \<Rightarrow> (int \<Rightarrow> int \<Rightarrow> int \<Rightarrow> int \<Rightarrow> 'v) \<Rightarrow> coords4 \<Rightarrow> int \<Rightarrow> 'v cache \<Rightarrow> 'v cache" where
  "fillStep ci getX first index cache =
     (let batch = fst first;
          cacheRCorner = fst (snd first) * strideHeight ci - padTop ci;
          cacheCCorner = fst (snd (snd first)) * strideWidth ci - padLeft ci;
          CACHE_C = inChannels ci;
          CACHE_WC = CACHE_W ci * CACHE_C;
          r = idiv index CACHE_WC;
          cd = index - r * CACHE_WC;
          c = idiv cd CACHE_C;
          d = cd - c * CACHE_C;
          xR = cacheRCorner + r * dilationHeight ci;
          xC = cacheCCorner + c
      in if xR \<ge> 0 \<and> xR < inHeight ci \<and> xC \<ge> 0 \<and> xC < inWidth ci
         then cache((r, cd) \<mapsto> getX batch xR xC d)
         else cache)"

text \<open>
  \<open>while (index < CACHE_HWC) { \<dots>; index += 56; }\<close>, started by each thread at
  its \<open>gl_LocalInvocationIndex\<close>.
\<close>

function fillLoop :: "Conv2DInfo \<Rightarrow> (int \<Rightarrow> int \<Rightarrow> int \<Rightarrow> int \<Rightarrow> 'v) \<Rightarrow> coords4 \<Rightarrow> int \<Rightarrow> 'v cache \<Rightarrow> 'v cache" where
  "fillLoop ci getX first index cache =
     (if index < CACHE_HWC ci
      then fillLoop ci getX first (index + 8 * 7) (fillStep ci getX first index cache)
      else cache)"
  by pat_completeness auto
termination
  by (relation "measure (\<lambda>(ci, getX, first, index, cache). nat (CACHE_HWC ci - index))") auto

declare fillLoop.simps [simp del]

text \<open>The fill phase of the whole workgroup, up to the barrier.\<close>

definition fillCache :: "Conv2DInfo \<Rightarrow> (int \<Rightarrow> int \<Rightarrow> int \<Rightarrow> int \<Rightarrow> 'v) \<Rightarrow> coords4 \<Rightarrow> 'v cache \<Rightarrow> 'v cache" where
  "fillCache ci getX first cache0 =
     fold (\<lambda>localIndex. fillLoop ci getX first (int localIndex)) [0..<8 * 7] cache0"

text \<open>
  The channel offsets the compute loop reads for one filter tap: groups of four
  up to \<open>inputDepthNearestVec4\<close>, then the remainder of one, two or three.
\<close>

definition channelReads :: "int \<Rightarrow> int list" where
  "channelReads channels =
     (let inputDepthNearestVec4 = (channels div 4) * 4;
          inputDepthVec4Remainder = channels mod 4
      in concat (map (\<lambda>q. [4 * int q, 4 * int q + 1, 4 * int q + 2, 4 * int q + 3])
                     [0..<nat (channels div 4)])
         @ (if inputDepthVec4Remainder = 1 then [inputDepthNearestVec4]
            else if inputDepthVec4Remainder = 2 then [inputDepthNearestVec4, inputDepthNearestVec4 + 1]
            else if inputDepthVec4Remainder = 3
            then [inputDepthNearestVec4, inputDepthNearestVec4 + 1, inputDepthNearestVec4 + 2]
            else []))"

text \<open>
  The cache reads of the compute phase of the thread whose \<open>getOutputCoords()\<close> is
  \<open>coords\<close>: for every filter tap that passes the two bounds checks and every
  channel \<open>d\<close>, the cell \<open>cache[sR][sC + d]\<close> that is read, paired with the input
  position \<open>(batch, xR, xC, d)\<close> whose value the tap stands for (it is multiplied
  with \<open>getW(wR, wC, d, d2)\<close>).  The arithmetic on the values is left out.
\<close>

definition computeReads :: "Conv2DInfo \<Rightarrow> coords4 \<Rightarrow> coords4 \<Rightarrow> ((int \<times> int) \<times> coords4) list" where
  "computeReads ci first coords =
     (let cacheCCorner = fst (snd (snd first)) * strideWidth ci - padLeft ci;
          CACHE_C = inChannels ci;
          batch = fst coords;
          xRCorner = fst (snd coords) * strideHeight ci - padTop ci;
          xCCorner = fst (snd (snd coords)) * strideWidth ci - padLeft ci
      in concat (map (\<lambda>wR.
           (let xR = xRCorner + int wR * dilationHeight ci
            in if xR < 0 \<or> xR \<ge> inHeight ci then []
               else (let sR = int wR
                     in concat (map (\<lambda>wC.
                          (let xC = xCCorner + int wC * dilationWidth ci
                           in if xC < 0 \<or> xC \<ge> inWidth ci then []
                              else (let sC = (xC - cacheCCorner) * CACHE_C
                                    in map (\<lambda>d. ((sR, sC + d), (batch, xR, xC, d)))
                                           (channelReads (inChannels ci)))))
                        [0..<nat (filterWidth ci)]))))
         [0..<nat (filterHeight ci)]))"

subsection \<open>\<open>DepthwiseConv2DProgramCS\<close>\<close>









subsection \<open>A depthwise convolution with vertical dilation 2\<close>



section \<open>Properties of the emitted helpers\<close>

lemma idiv_nonneg: "0 \<le> a \<Longrightarrow> 0 < b \<Longrightarrow> idiv a b = a div b"
  by (cases "a = 0") (simp_all add: idiv_def)

lemma idiv_neg: "a < 0 \<Longrightarrow> 0 < b \<Longrightarrow> idiv a b = - ((- a) div b)"
  by (simp add: idiv_def)

lemma imod_nonneg: "0 \<le> x \<Longrightarrow> 0 < y \<Longrightarrow> imod x y = x mod y"
  by (simp add: imod_def idiv_nonneg minus_mult_div_eq_mod)

lemma imod_neg: "x < 0 \<Longrightarrow> 0 < y \<Longrightarrow> imod x y = - ((- x) mod y)"
  by (simp add: imod_def idiv_neg minus_mult_div_eq_mod [symmetric])

text \<open>
  C10.  For \<open>x \<ge> 0\<close> and \<open>y > 0\<close> the emitted \<open>imod\<close> is the mathematical
  remainder and lies in \<open>[0, y)\<close>; for \<open>x < 0\<close> it is non-positive and lies in
  \<open>(-y, 0]\<close>, so it is a remainder only for a non-negative first argument.
\<close>

theorem imod_remainder_iff_nonneg:
  "(0 \<le> x \<and> 0 < y \<longrightarrow> imod x y = x mod y \<and> 0 \<le> imod x y \<and> imod x y < y) \<and>
   (x < 0 \<and> 0 < y \<longrightarrow> - y < imod x y \<and> imod x y \<le> 0)"
proof (intro conjI impI)
  assume h: "0 \<le> x \<and> 0 < y"
  then show "imod x y = x mod y" by (simp add: imod_nonneg)
  from h show "0 \<le> imod x y" by (simp add: imod_nonneg)
  from h show "imod x y < y" by (simp add: imod_nonneg)
next
  assume h: "x < 0 \<and> 0 < y"
  then have e: "imod x y = - ((- x) mod y)" by (simp add: imod_neg)
  from h have "0 \<le> (- x) mod y" "(- x) mod y < y" by simp_all
  then show "- y < imod x y" "imod x y \<le> 0" using e by simp_all
qed

theorem imod_remainder_iff_nonneg_witness:
  "imod 7 3 = 7 mod 3 \<and> 0 \<le> imod 7 3 \<and> imod 7 3 < 3 \<and>
   - 3 < imod (- 7) 3 \<and> imod (- 7) 3 \<le> 0 \<and> imod (- 7) 3 = - 1 \<and> (- 7 :: int) mod 3 = 2"
  using imod_remainder_iff_nonneg [of 7 3] imod_remainder_iff_nonneg [of "- 7" 3]
  by (simp add: imod_def idiv_def)


section \<open>The tile loop covers the shared dimension\<close>

lemma map_shift_upt: "map (\<lambda>i. a + i) [0..<r] = [a..<a + r]"
  by (induction r) simp_all

lemma full_tiles: "concat (map (\<lambda>t. map (\<lambda>i. TS * t + i) [0..<TS]) [0..<q]) = [0..<q * TS]"
proof (induction q)
  case 0
  show ?case by simp
next
  case (Suc q)
  have "[0..<Suc q * TS] = [0..<q * TS] @ [q * TS..<q * TS + TS]"
    using upt_add_eq_append [of 0 "q * TS" TS] by (simp add: add.commute)
  moreover have "map (\<lambda>i. TS * q + i) [0..<TS] = [q * TS..<q * TS + TS]"
    by (simp only: map_shift_upt mult.commute)
  ultimately show ?case using Suc by simp
qed

lemma ceilDiv_exact: "0 < b \<Longrightarrow> a mod b = 0 \<Longrightarrow> ceilDiv a b = a div b"
proof -
  assume b: "0 < b" and m: "a mod b = 0"
  then have "b dvd a" by (simp add: dvd_eq_mod_eq_0)
  then obtain q where q: "a = q * b" by (metis dvd_def mult.commute)
  have "q * b \<le> q * b + b - 1" "q * b + b - 1 < Suc q * b" using b by simp_all
  then have "(q * b + b - 1) div b = q"
    by (intro div_nat_eqI) (simp_all add: mult.commute)
  then show ?thesis using q b by (simp add: ceilDiv_def)
qed

lemma ceilDiv_inexact: "0 < b \<Longrightarrow> a mod b \<noteq> 0 \<Longrightarrow> ceilDiv a b = Suc (a div b)"
proof -
  assume b: "0 < b" and m: "a mod b \<noteq> 0"
  define q where "q = a div b"
  define r where "r = a mod b"
  have a: "a = q * b + r" by (simp add: q_def r_def)
  have r: "0 < r" "r < b" using m b by (simp_all add: r_def)
  have "Suc q * b \<le> q * b + r + b - 1" "q * b + r + b - 1 < Suc (Suc q) * b" using r by simp_all
  then have "(q * b + r + b - 1) div b = Suc q"
    by (intro div_nat_eqI) (simp_all add: mult.commute)
  moreover have "a + b - 1 = q * b + r + b - 1" using a by simp
  ultimately have "(a + b - 1) div b = Suc q" by simp
  then show ?thesis by (simp add: ceilDiv_def q_def)
qed

lemma accumulated_upt: "0 < TS \<Longrightarrow> accumulated sdp TS = [0..<sdp]"
proof (cases "sdp mod TS = 0")
  case True
  assume ts: "0 < TS"
  have n: "numTiles sdp TS = sdp div TS" using ts True by (simp add: numTiles_def ceilDiv_exact)
  have "accumulated sdp TS = concat (map (\<lambda>t. map (\<lambda>i. TS * t + i) [0..<TS]) [0..<sdp div TS])"
    using True by (simp add: accumulated_def sizeTS_def n)
  also have "\<dots> = [0..<sdp div TS * TS]" by (rule full_tiles)
  also have "sdp div TS * TS = sdp" using True by (simp add: mod_0_imp_dvd)
  finally show ?thesis .
next
  case False
  assume ts: "0 < TS"
  define q where "q = sdp div TS"
  have n: "numTiles sdp TS = Suc q" using ts False by (simp add: numTiles_def ceilDiv_inexact q_def)
  have sz: "\<And>t. t < q \<Longrightarrow> sizeTS sdp TS t = TS" by (simp add: sizeTS_def n)
  have szq: "sizeTS sdp TS q = sdp mod TS" using False by (simp add: sizeTS_def n)
  have "accumulated sdp TS =
          concat (map (\<lambda>t. map (\<lambda>i. TS * t + i) [0..<sizeTS sdp TS t]) [0..<q])
          @ map (\<lambda>i. TS * q + i) [0..<sizeTS sdp TS q]"
    by (simp add: accumulated_def n)
  also have "concat (map (\<lambda>t. map (\<lambda>i. TS * t + i) [0..<sizeTS sdp TS t]) [0..<q])
           = concat (map (\<lambda>t. map (\<lambda>i. TS * t + i) [0..<TS]) [0..<q])"
    using sz by (intro arg_cong [where f = concat] map_cong) simp_all
  also have "\<dots> = [0..<q * TS]" by (rule full_tiles)
  also have "map (\<lambda>i. TS * q + i) [0..<sizeTS sdp TS q] = [q * TS..<q * TS + sdp mod TS]"
    by (simp only: szq map_shift_upt mult.commute)
  also have "[0..<q * TS] @ [q * TS..<q * TS + sdp mod TS] = [0..<q * TS + sdp mod TS]"
    using upt_add_eq_append [of 0 "q * TS" "sdp mod TS"] by simp
  also have "q * TS + sdp mod TS = sdp" by (simp add: q_def)
  finally show ?thesis .
qed




section \<open>Bias requests\<close>

text \<open>
  C2 as stated fails: no constructor rejects \<open>addBias = true\<close>.  Concrete calls of
  the second, third and fourth variant with a bias request return a program.
\<close>

theorem bias_request_not_rejected_counterexample:
  "\<not> isl (MatMulPackedProgramCSV2 (1, 4, 4) (1, 4, 4) False False 2 1 True None) \<and>
   \<not> isl (MatMulPackedProgramCSV3 (1, 4, 4) (1, 4, 4) False False 2 1 True None) \<and>
   \<not> isl (MatMulPackedProgramCSV4 (1, 4, 4) (1, 4, 4) False False 2 2 1 True None)"
  by (simp add: MatMulPackedProgramCSV2_def MatMulPackedProgramCSV3_def MatMulPackedProgramCSV4_def)

text \<open>
  C2, amended.  On a bias request every constructor returns a program.  The third
  and fourth variant report \<open>bias is not supported\<close> through \<open>console.error\<close> and
  build the program without bias: its inputs are \<open>matrixA\<close> and \<open>matrixB\<close> and no
  bias statement is emitted.  The second variant, like the first, adds \<open>bias\<close> to
  the inputs and emits the bias statement.
\<close>

theorem bias_request_logged_or_kept:
  "(\<exists>p. MatMulPackedProgramCSV3 aShape outShape tA tB TS WPT True activation = Inr p \<and>
        consoleError p = [''bias is not supported''] \<and>
        variableNames p = [''matrixA'', ''matrixB''] \<and> addBiasSnippet p = []) \<and>
   (\<exists>p. MatMulPackedProgramCSV4 aShape outShape tA tB TS TSK WPT True activation = Inr p \<and>
        consoleError p = [''bias is not supported''] \<and>
        variableNames p = [''matrixA'', ''matrixB''] \<and> addBiasSnippet p = []) \<and>
   (\<exists>p. MatMulPackedProgramCSV2 aShape outShape tA tB TS WPT True activation = Inr p \<and>
        consoleError p = [] \<and>
        variableNames p = [''matrixA'', ''matrixB'', ''bias''] \<and>
        addBiasSnippet p = ''result += getBiasAtOutCoords();'') \<and>
   (\<exists>p. MatMulPackedProgramCS aShape outShape tA tB TS True activation = Inr p \<and>
        consoleError p = [] \<and>
        variableNames p = [''matrixA'', ''matrixB'', ''bias''] \<and>
        addBiasSnippet p = ''result += getBiasAtOutCoords();'')"
  by (simp add: MatMulPackedProgramCS_def MatMulPackedProgramCSV2_def MatMulPackedProgramCSV3_def
      MatMulPackedProgramCSV4_def Let_def)

section \<open>Stores beyond the output shape\<close>

text \<open>
  C8 as stated fails for the first two variants.  For \<open>outputShape = [1, 2, 2]\<close> the
  packed output is a single texel, \<open>ceil(2 / 2) = 1\<close> row and column.  With
  \<open>TS = 2\<close> the first variant stores at four positions, and so does the second
  with \<open>WPT = 2\<close>; three of them lie beyond the packed output.
\<close>

theorem unguarded_store_counterexample:
  "map fst (mainCS exampleEnv False False (sharedDimensionPacked (1, 2, 2) False) 2 (0, 0) exampleShared)
     = [(0, 0), (1, 0), (0, 1), (1, 1)] \<and>
   map fst (mainCSV2 exampleEnv False False (sharedDimensionPacked (1, 2, 2) False) 2 2 (0, 0)
              exampleShared (\<lambda>th w. vzero))
     = [(0, 0), (0, 1), (1, 0), (1, 1)] \<and>
   ceilDiv 2 2 = 1 \<and>
   \<not> list_all (\<lambda>s. snd (fst s) < ceilDiv 2 2 \<and> fst (fst s) < ceilDiv 2 2)
        (mainCS exampleEnv False False (sharedDimensionPacked (1, 2, 2) False) 2 (0, 0) exampleShared) \<and>
   \<not> list_all (\<lambda>s. snd (fst s) < ceilDiv 2 2 \<and> fst (fst s) < ceilDiv 2 2)
        (mainCSV2 exampleEnv False False (sharedDimensionPacked (1, 2, 2) False) 2 2 (0, 0)
           exampleShared (\<lambda>th w. vzero))"
  by code_simp

lemma storeCSV3_guarded:
  "((x, y), v) \<in> set (storeCSV3 TS WPT outShape wg th result) \<Longrightarrow>
   y < ceilDiv (fst (snd outShape)) 2 \<and> x < ceilDiv (snd (snd outShape)) 2"
  by (auto simp: storeCSV3_def Let_def split: if_splits)

lemma storeCSV4_guarded:
  "((x, y), v) \<in> set (storeCSV4 TS WPT outShape wg th acc) \<Longrightarrow>
   y < ceilDiv (fst (snd outShape)) 2 \<and> x < ceilDiv (snd (snd outShape)) 2"
  by (auto simp: storeCSV4_def Let_def split: if_splits)

text \<open>
  C8, amended.  The third and fourth variant store only at packed positions inside
  the output: every image store \<open>((x, y), v)\<close> they perform has
  \<open>y < ceil(outputShape[1] / 2)\<close> and \<open>x < ceil(outputShape[2] / 2)\<close>.  The first
  and second variant store unconditionally: every thread of the workgroup stores
  at its position (the second at its \<open>WPT\<close> positions), whatever the output shape.
\<close>

theorem stores_guarded_in_V3_V4_only:
  "list_all (\<lambda>s. snd (fst s) < ceilDiv (fst (snd outShape)) 2 \<and> fst (fst s) < ceilDiv (snd (snd outShape)) 2)
     (mainCSV3 env tA tB sdp outShape TS WPT wg sh0 uninit) \<and>
   list_all (\<lambda>s. snd (fst s) < ceilDiv (fst (snd outShape)) 2 \<and> fst (fst s) < ceilDiv (snd (snd outShape)) 2)
     (mainCSV4 env tA tB sdp outShape TS TSK WPT wg sh0 uninit) \<and>
   map fst (mainCS env tA tB sdp TS wg sh0) =
     map (\<lambda>th. (TS * fst wg + snd th, TS * snd wg + fst th)) (localThreads TS TS) \<and>
   map fst (mainCSV2 env tA tB sdp TS WPT wg sh0 uninit2) =
     concat (map (\<lambda>th. map (\<lambda>w. (TS * fst wg + snd th, TS * snd wg + fst th + w * (TS div WPT))) [0..<WPT])
                 (localThreads (TS div WPT) TS))"
proof (intro conjI)
  show "list_all (\<lambda>s. snd (fst s) < ceilDiv (fst (snd outShape)) 2 \<and> fst (fst s) < ceilDiv (snd (snd outShape)) 2)
     (mainCSV3 env tA tB sdp outShape TS WPT wg sh0 uninit)"
    unfolding list_all_iff mainCSV3_def Let_def
    by (auto dest: storeCSV3_guarded)
  show "list_all (\<lambda>s. snd (fst s) < ceilDiv (fst (snd outShape)) 2 \<and> fst (fst s) < ceilDiv (snd (snd outShape)) 2)
     (mainCSV4 env tA tB sdp outShape TS TSK WPT wg sh0 uninit)"
    unfolding list_all_iff mainCSV4_def Let_def
    by (auto dest: storeCSV4_guarded)
  show "map fst (mainCS env tA tB sdp TS wg sh0) =
     map (\<lambda>th. (TS * fst wg + snd th, TS * snd wg + fst th)) (localThreads TS TS)"
    by (simp add: mainCS_def Let_def comp_def)
  show "map fst (mainCSV2 env tA tB sdp TS WPT wg sh0 uninit2) =
     concat (map (\<lambda>th. map (\<lambda>w. (TS * fst wg + snd th, TS * snd wg + fst th + w * (TS div WPT))) [0..<WPT])
                 (localThreads (TS div WPT) TS))"
    by (simp add: mainCSV2_def Let_def comp_def map_concat)
qed

theorem stores_guarded_in_V3_V4_only_witness:
  "map fst (mainCSV3 exampleEnv False False 1 (1, 2, 2) 2 2 (0, 0) exampleShared (\<lambda>th. (\<lambda>i. vzero, \<lambda>r c. vzero)))
     = [(0, 0)] \<and>
   map fst (mainCSV4 exampleEnv False False 1 (1, 2, 2) 2 1 2 (0, 0) exampleShared (\<lambda>th. (\<lambda>i. vzero, \<lambda>r c. vzero)))
     = [(0, 0)] \<and>
   list_all (\<lambda>s. snd (fst s) < ceilDiv 2 2 \<and> fst (fst s) < ceilDiv 2 2)
     (mainCSV3 exampleEnv False False 1 (1, 2, 2) 2 2 (0, 0) exampleShared (\<lambda>th. (\<lambda>i. vzero, \<lambda>r c. vzero))) \<and>
   list_all (\<lambda>s. snd (fst s) < ceilDiv 2 2 \<and> fst (fst s) < ceilDiv 2 2)
     (mainCSV4 exampleEnv False False 1 (1, 2, 2) 2 1 2 (0, 0) exampleShared (\<lambda>th. (\<lambda>i. vzero, \<lambda>r c. vzero)))"
proof -
  have a: "map fst (mainCSV3 exampleEnv False False 1 (1, 2, 2) 2 2 (0, 0) exampleShared
                      (\<lambda>th. (\<lambda>i. vzero, \<lambda>r c. vzero))) = [(0, 0)]"
    by (simp add: mainCSV3_def storeCSV3_def localThreads_def ceilDiv_def Let_def upt_rec)
  have b: "map fst (mainCSV4 exampleEnv False False 1 (1, 2, 2) 2 1 2 (0, 0) exampleShared
                      (\<lambda>th. (\<lambda>i. vzero, \<lambda>r c. vzero))) = [(0, 0)]"
    by (simp add: mainCSV4_def storeCSV4_def localThreads_def ceilDiv_def Let_def upt_rec)
  note g = stores_guarded_in_V3_V4_only [of "(1, 2, 2)" exampleEnv False False 1 2 2 "(0, 0)" exampleShared
        "\<lambda>th. (\<lambda>i. vzero, \<lambda>r c. vzero)" 1]
  have c: "list_all (\<lambda>s. snd (fst s) < ceilDiv 2 2 \<and> fst (fst s) < ceilDiv 2 2)
     (mainCSV3 exampleEnv False False 1 (1, 2, 2) 2 2 (0, 0) exampleShared (\<lambda>th. (\<lambda>i. vzero, \<lambda>r c. vzero)))"
    using conjunct1 [OF g] by (simp only: fst_conv snd_conv)
  have d: "list_all (\<lambda>s. snd (fst s) < ceilDiv 2 2 \<and> fst (fst s) < ceilDiv 2 2)
     (mainCSV4 exampleEnv False False 1 (1, 2, 2) 2 1 2 (0, 0) exampleShared (\<lambda>th. (\<lambda>i. vzero, \<lambda>r c. vzero)))"
    using conjunct1 [OF conjunct2 [OF g]] by (simp only: fst_conv snd_conv)
  from a b c d show ?thesis by (intro conjI)
qed


section \<open>Packed texel layout\<close>

lemma packedUVfrom2D_index:
  "snd (packedUVfrom2D tlr texNumR texNumC row col) * texNumC + fst (packedUVfrom2D tlr texNumR texNumC row col)
     = idiv row 2 * tlr + idiv col 2"
  by (simp add: packedUVfrom2D_def Let_def)

lemma idiv2_block: "0 \<le> t \<Longrightarrow> idiv (2 * t) 2 = t \<and> idiv (2 * t + 1) 2 = t"
  by (simp add: idiv_nonneg)

text \<open>
  C5.  For a 2D logical shape in packed mode the four logical positions
  \<open>(2tr, 2tc)\<close>, \<open>(2tr, 2tc+1)\<close>, \<open>(2tr+1, 2tc)\<close>, \<open>(2tr+1, 2tc+1)\<close> are
  fetched from one texel, the one with index \<open>tr * texelsInLogicalRow + tc\<close>,
  and \<open>getChannel\<close> reads them from its channels \<open>r\<close>, \<open>g\<close>, \<open>b\<close>, \<open>a\<close> in this
  order.  In general \<open>packedUVfrom2D\<close> addresses the texel with index
  \<open>(row / 2) * texelsInLogicalRow + col / 2\<close> and \<open>getChannel\<close> selects by the
  parities of \<open>row\<close> and \<open>col\<close>.
\<close>

theorem packed_texel_holds_2x2_block:
  assumes "0 \<le> tr" and "0 \<le> tc"
  shows "packedUVfrom2D tlr texNumR texNumC (2 * tr) (2 * tc + 1) = packedUVfrom2D tlr texNumR texNumC (2 * tr) (2 * tc) \<and>
         packedUVfrom2D tlr texNumR texNumC (2 * tr + 1) (2 * tc) = packedUVfrom2D tlr texNumR texNumC (2 * tr) (2 * tc) \<and>
         packedUVfrom2D tlr texNumR texNumC (2 * tr + 1) (2 * tc + 1) = packedUVfrom2D tlr texNumR texNumC (2 * tr) (2 * tc) \<and>
         snd (packedUVfrom2D tlr texNumR texNumC (2 * tr) (2 * tc)) * texNumC
           + fst (packedUVfrom2D tlr texNumR texNumC (2 * tr) (2 * tc)) = tr * tlr + tc \<and>
         getChannel frag (2 * tr, 2 * tc) = vx frag \<and>
         getChannel frag (2 * tr, 2 * tc + 1) = vy frag \<and>
         getChannel frag (2 * tr + 1, 2 * tc) = vz frag \<and>
         getChannel frag (2 * tr + 1, 2 * tc + 1) = vw frag \<and>
         (\<forall>row col. 0 \<le> row \<and> 0 \<le> col \<longrightarrow>
            snd (packedUVfrom2D tlr texNumR texNumC row col) * texNumC
              + fst (packedUVfrom2D tlr texNumR texNumC row col) = (row div 2) * tlr + col div 2 \<and>
            getChannel frag (row, col) =
              (if row mod 2 = 0 then (if col mod 2 = 0 then vx frag else vy frag)
               else (if col mod 2 = 0 then vz frag else vw frag)))"
proof -
  have a: "idiv (2 * tr) 2 = tr" "idiv (2 * tr + 1) 2 = tr" using assms(1) by (simp_all add: idiv_nonneg)
  have b: "idiv (2 * tc) 2 = tc" "idiv (2 * tc + 1) 2 = tc" using assms(2) by (simp_all add: idiv_nonneg)
  have uv: "\<And>r c. packedUVfrom2D tlr texNumR texNumC r c =
      (idiv r 2 * tlr + idiv c 2 - idiv (idiv r 2 * tlr + idiv c 2) texNumC * texNumC,
       idiv (idiv r 2 * tlr + idiv c 2) texNumC)"
    by (simp add: packedUVfrom2D_def Let_def)
  have ch: "getChannel frag (2 * tr, 2 * tc) = vx frag" "getChannel frag (2 * tr, 2 * tc + 1) = vy frag"
    "getChannel frag (2 * tr + 1, 2 * tc) = vz frag" "getChannel frag (2 * tr + 1, 2 * tc + 1) = vw frag"
    by (simp_all add: getChannel_def Let_def)
  have gen: "\<forall>row col. 0 \<le> row \<and> 0 \<le> col \<longrightarrow>
            snd (packedUVfrom2D tlr texNumR texNumC row col) * texNumC
              + fst (packedUVfrom2D tlr texNumR texNumC row col) = (row div 2) * tlr + col div 2 \<and>
            getChannel frag (row, col) =
              (if row mod 2 = 0 then (if col mod 2 = 0 then vx frag else vy frag)
               else (if col mod 2 = 0 then vz frag else vw frag))"
    by (simp add: packedUVfrom2D_index idiv_nonneg getChannel_def Let_def)
  show ?thesis
    using ch gen by (simp add: uv a b)
qed

theorem packed_texel_holds_2x2_block_witness:
  "packedUVfrom2D 3 2 3 4 2 = (1, 2) \<and> packedUVfrom2D 3 2 3 4 3 = (1, 2) \<and>
   packedUVfrom2D 3 2 3 5 2 = (1, 2) \<and> packedUVfrom2D 3 2 3 5 3 = (1, 2) \<and>
   2 * 3 + 1 = (2 * 3 + 1 :: int) \<and>
   getChannel (Vec4 (10::int) 11 12 13) (4, 2) = 10 \<and> getChannel (Vec4 (10::int) 11 12 13) (4, 3) = 11 \<and>
   getChannel (Vec4 (10::int) 11 12 13) (5, 2) = 12 \<and> getChannel (Vec4 (10::int) 11 12 13) (5, 3) = 13"
  using packed_texel_holds_2x2_block [of 2 1 3 2 3 "Vec4 (10::int) 11 12 13"]
  by (simp add: packedUVfrom2D_def idiv_def Let_def)


section \<open>Supported ranks\<close>

lemma squeezed_rank [simp]: "logicalShape (shapeInfo (squeezeInputInfo inInfo s)) = s"
  by (simp add: squeezeInputInfo_def)



















section \<open>Broadcast inputs read at the output coordinates\<close>

text \<open>
  The accessors of the texture-sampling path and of packed programs zero the
  output coordinate of every broadcast axis before they call the sampler.
\<close>

lemma fold_zero_keeps:
  "i < length cs \<Longrightarrow> cs ! i = 0 \<Longrightarrow> fold (\<lambda>d cs. cs[d + k := (0::int)]) ds cs ! i = 0"
proof (induction ds arbitrary: cs)
  case Nil
  then show ?case by simp
next
  case (Cons e ds)
  have "cs[e + k := 0] ! i = 0" using Cons.prems by (cases "e + k = i") simp_all
  then show ?case using Cons.IH [of "cs[e + k := 0]"] Cons.prems by simp
qed

lemma fold_zero_nth:
  "d \<in> set ds \<Longrightarrow> d + k < length cs \<Longrightarrow> fold (\<lambda>d cs. cs[d + k := (0::int)]) ds cs ! (d + k) = 0"
proof (induction ds arbitrary: cs)
  case Nil
  then show ?case by simp
next
  case (Cons e ds)
  show ?case
  proof (cases "e = d")
    case True
    have "cs[d + k := 0] ! (d + k) = 0" using Cons.prems by simp
    then show ?thesis using True Cons.prems fold_zero_keeps [of "d + k" "cs[d + k := 0]" k ds] by simp
  next
    case False
    then have "d \<in> set ds" using Cons.prems by simp
    then show ?thesis using Cons.IH [of "cs[e + k := 0]"] Cons.prems by simp
  qed
qed

lemma fold_zero_length: "length (fold (\<lambda>d cs. cs[d + k := (0::int)]) ds cs) = length cs"
  by (induction ds arbitrary: cs) simp_all

lemma getBroadcastDims_lt: "d \<in> set (getBroadcastDims inShape outShape) \<Longrightarrow> d < length inShape"
  by (auto simp: getBroadcastDims_def)

lemma broadcast_coordinate_zeroed:
  assumes d: "d \<in> set (getBroadcastDims inShape outShape)"
    and len: "length coords = length outShape"
    and rk: "length inShape \<le> length outShape"
  shows "unpackedCoordsSnippet inShape outShape (coordsSnippet inShape outShape coords) ! d = 0"
proof -
  have dl: "d < length inShape" using d by (rule getBroadcastDims_lt)
  then have pos: "0 < length inShape" by linarith
  have ne: "getBroadcastDims inShape outShape \<noteq> []" using d by auto
  show ?thesis
  proof (cases "length outShape < 2")
    case True
    then have "length inShape = 1" "length outShape = 1" "d = 0" using pos rk dl by simp_all
    moreover have "1 \<le> length (getBroadcastDims inShape outShape)"
      using ne by (cases "getBroadcastDims inShape outShape") simp_all
    ultimately show ?thesis using True len
      by (simp add: unpackedCoordsSnippet_def coordsSnippet_def Let_def)
  next
    case False
    have b: "d + (length outShape - length inShape) < length coords" using dl rk len by simp
    show ?thesis using False pos dl fold_zero_nth [OF d b]
      by (simp add: unpackedCoordsSnippet_def coordsSnippet_def Let_def)
  qed
qed


text \<open>
  C4 on the compute-shader accessor of unpacked programs.  For the bias vector
  \<open>[3]\<close> and the output \<open>[2, 3]\<close>, the output coordinates \<open>[0, 0]\<close> and
  \<open>[1, 0]\<close> differ only along the broadcast axis, and the generated
  \<open>getBiasAtOutCoords()\<close> fetches the input texels \<open>(0, 0)\<close> and \<open>(0, 1)\<close>,
  the second outside the \<open>1 \<times> 3\<close> input texture.  For the column \<open>[2, 1]\<close> the
  output coordinates \<open>[0, 0]\<close>, \<open>[0, 1]\<close>, \<open>[0, 2]\<close> fetch three different
  texels.  The accessor of the texture-sampling path passes the same arguments to
  the sampler in both cases.
\<close>

theorem indexed_accessor_ignores_broadcast:
  "map (atOutCoordsCS biasInfo matrixOutInfo) [(0, 0), (0, 1)]
     = [Some ([0, 0], Texel 0 0), Some ([1, 0], Texel 0 1)] \<and>
   map (atOutCoordsCS columnInfo matrixOutInfo) [(0, 0), (1, 0), (2, 0)]
     = [Some ([0, 0], Texel 0 0), Some ([0, 1], Texel 0 1), Some ([0, 2], Texel 0 2)] \<and>
   (case getSamplerAtOutputCoords biasInfo matrixOutInfo of
      Inr (ViaSampler args) \<Rightarrow> map args [[0, 0], [1, 0]] = [[0], [0]]
    | _ \<Rightarrow> False) \<and>
   (case getSamplerAtOutputCoords columnInfo matrixOutInfo of
      Inr (ViaSampler args) \<Rightarrow> map args [[0, 0], [0, 1], [0, 2]] = [[0, 0], [0, 0], [0, 0]]
    | _ \<Rightarrow> False)"
  by code_simp


section \<open>The cache of the depthwise kernel under vertical dilation\<close>



section \<open>The tiled kernels against the reference product\<close>

text \<open>
  After the load phase of tile \<open>t\<close> the shared arrays hold, at the cell of every thread
  of the group, the texels of \<open>matrixA\<close> and \<open>matrixB\<close> that thread fetched.
\<close>

lemma upd2_apply: "upd2 arr i j v r c = (if r = i \<and> c = j then v else arr r c)"
  by (simp add: upd2_def)

lemma sizeTS_le: "0 < TS \<Longrightarrow> sizeTS sdp TS t \<le> TS"
  by (simp add: sizeTS_def less_imp_le)

lemma loadCS_fold:
  "fst (fold (loadCS env tA tB TS wg t) ths sh) r c =
     (if (r, c) \<in> set ths
      then (if tA then getMatrixA env (getOutputCoordsX env (TS * fst wg + c) (TS * snd wg + r))
                         ((TS * t + c) * 2) ((TS * snd wg + r) * 2)
            else getMatrixA env (getOutputCoordsX env (TS * fst wg + c) (TS * snd wg + r))
                         ((TS * snd wg + r) * 2) ((TS * t + c) * 2))
      else fst sh r c) \<and>
   snd (fold (loadCS env tA tB TS wg t) ths sh) r c =
     (if (r, c) \<in> set ths
      then (if tB then getMatrixB env (getOutputCoordsX env (TS * fst wg + c) (TS * snd wg + r))
                         ((TS * fst wg + c) * 2) ((TS * t + r) * 2)
            else getMatrixB env (getOutputCoordsX env (TS * fst wg + c) (TS * snd wg + r))
                         ((TS * t + r) * 2) ((TS * fst wg + c) * 2))
      else snd sh r c)"
proof (induction ths arbitrary: sh rule: rev_induct)
  case Nil
  show ?case by simp
next
  case (snoc th ths)
  show ?case
    using snoc [of sh]
    by (cases th) (auto simp: loadCS_def Let_def upd2_apply)
qed

lemma in_localThreads: "(r, c) \<in> set (localThreads sizeY sizeX) \<longleftrightarrow> r < sizeY \<and> c < sizeX"
  by (auto simp: localThreads_def)

lemma accumulateCS_tile:
  assumes TS: "0 < TS"
    and batch: "\<And>r c. r < TS \<Longrightarrow> c < TS \<Longrightarrow> getOutputCoordsX env (TS * fst wg + c) (TS * snd wg + r) = b"
    and th: "fst th < TS" "snd th < TS"
  shows "accumulateCS tA tB sdp TS t (fold (loadCS env tA tB TS wg t) (localThreads TS TS) sh) th acc =
         fold (\<lambda>k r. madd tA tB r (aTexel env tA b (TS * snd wg + fst th) k) (bTexel env tB b (TS * fst wg + snd th) k))
              (map (\<lambda>i. TS * t + i) [0..<sizeTS sdp TS t]) acc"
proof -
  have le: "sizeTS sdp TS t \<le> TS" using TS by (rule sizeTS_le)
  have "fold (\<lambda>i r. madd tA tB r (fst (fold (loadCS env tA tB TS wg t) (localThreads TS TS) sh) (fst th) i)
                                (snd (fold (loadCS env tA tB TS wg t) (localThreads TS TS) sh) i (snd th)))
             [0..<sizeTS sdp TS t] acc
      = fold (\<lambda>i r. madd tA tB r (aTexel env tA b (TS * snd wg + fst th) (TS * t + i))
                                  (bTexel env tB b (TS * fst wg + snd th) (TS * t + i)))
             [0..<sizeTS sdp TS t] acc"
  proof (rule fold_cong [OF refl refl])
    fix i assume "i \<in> set [0..<sizeTS sdp TS t]"
    then have i: "i < TS" using le by simp
    show "(\<lambda>r. madd tA tB r (fst (fold (loadCS env tA tB TS wg t) (localThreads TS TS) sh) (fst th) i)
                                (snd (fold (loadCS env tA tB TS wg t) (localThreads TS TS) sh) i (snd th)))
        = (\<lambda>r. madd tA tB r (aTexel env tA b (TS * snd wg + fst th) (TS * t + i))
                                  (bTexel env tB b (TS * fst wg + snd th) (TS * t + i)))"
      using i th batch [of "fst th" i] batch [of i "snd th"]
      by (simp add: loadCS_fold in_localThreads aTexel_def bTexel_def)
  qed
  then show ?thesis by (simp add: accumulateCS_def fold_map comp_def)
qed

lemma tilesCS_invariant:
  assumes TS: "0 < TS"
    and batch: "\<And>r c. r < TS \<Longrightarrow> c < TS \<Longrightarrow> getOutputCoordsX env (TS * fst wg + c) (TS * snd wg + r) = b"
    and th: "fst th < TS" "snd th < TS"
  shows "snd (fold (tileStepCS env tA tB sdp TS wg) [0..<m] (sh0, init)) th =
         fold (\<lambda>k r. madd tA tB r (aTexel env tA b (TS * snd wg + fst th) k) (bTexel env tB b (TS * fst wg + snd th) k))
              (concat (map (\<lambda>t. map (\<lambda>i. TS * t + i) [0..<sizeTS sdp TS t]) [0..<m])) (init th)"
proof (induction m)
  case 0
  show ?case by simp
next
  case (Suc m)
  show ?case
    using Suc accumulateCS_tile [OF TS batch th]
    by (simp add: tileStepCS_def Let_def)
qed

lemma mainCS_tiled_is_untiled:
  assumes TS: "0 < TS"
    and batch: "\<And>r c. r < TS \<Longrightarrow> c < TS \<Longrightarrow> getOutputCoordsX env (TS * fst wg + c) (TS * snd wg + r) = b"
  shows "mainCS env tA tB sdp TS wg sh0 =
         map (\<lambda>th. ((TS * fst wg + snd th, TS * snd wg + fst th),
                    packedDot env tA tB sdp b (TS * snd wg + fst th) (TS * fst wg + snd th) vzero))
             (localThreads TS TS)"
proof -
  have "\<And>th. th \<in> set (localThreads TS TS) \<Longrightarrow>
      snd (fold (tileStepCS env tA tB sdp TS wg) [0..<numTiles sdp TS] (sh0, \<lambda>th. vzero)) th
        = packedDot env tA tB sdp b (TS * snd wg + fst th) (TS * fst wg + snd th) vzero"
  proof -
    fix th assume "th \<in> set (localThreads TS TS)"
    then have "(fst th, snd th) \<in> set (localThreads TS TS)" by simp
    then have th: "fst th < TS" "snd th < TS" unfolding in_localThreads by simp_all
    have acc: "concat (map (\<lambda>t. map (\<lambda>i. TS * t + i) [0..<sizeTS sdp TS t]) [0..<numTiles sdp TS]) = [0..<sdp]"
      using accumulated_upt [OF TS, of sdp] by (simp add: accumulated_def)
    show "snd (fold (tileStepCS env tA tB sdp TS wg) [0..<numTiles sdp TS] (sh0, \<lambda>th. vzero)) th
        = packedDot env tA tB sdp b (TS * snd wg + fst th) (TS * fst wg + snd th) vzero"
      unfolding packedDot_def
      using tilesCS_invariant [OF TS batch th, of tA tB sdp "numTiles sdp TS" sh0 "\<lambda>th. vzero"]
      by (simp only: acc)
  qed
  then have "map (\<lambda>th. ((TS * fst wg + snd th, TS * snd wg + fst th),
                    snd (fold (tileStepCS env tA tB sdp TS wg) [0..<numTiles sdp TS] (sh0, \<lambda>th. vzero)) th))
             (localThreads TS TS) =
         map (\<lambda>th. ((TS * fst wg + snd th, TS * snd wg + fst th),
                    packedDot env tA tB sdp b (TS * snd wg + fst th) (TS * fst wg + snd th) vzero))
             (localThreads TS TS)"
    by (intro map_cong refl) (simp only:)
  then show ?thesis unfolding mainCS_def Let_def .
qed

text \<open>
  The untiled packed accumulation started from zero is the reference product, read
  through the packed layout, over \<open>2 * sharedDimensionPacked\<close> elements.
\<close>

lemma upt_double_Suc: "[0..<2 * Suc n] = [0..<2 * n] @ [2 * n, Suc (2 * n)]"
  by simp

lemma packedDot_is_reference:
  fixes A B :: "nat \<Rightarrow> nat \<Rightarrow> nat \<Rightarrow> 'a::semiring_0"
  shows "packedDot (packedEnv A B batch) tA tB sdp b globalRow globalCol vzero =
         referenceTexel tA tB A B (2 * sdp) b globalRow globalCol"
proof (induction sdp)
  case 0
  show ?case
    by (simp add: packedDot_def referenceTexel_def packedTexel_def matMulReference_def vzero_def Let_def)
next
  case (Suc n)
  have "packedDot (packedEnv A B batch) tA tB (Suc n) b globalRow globalCol vzero =
        madd tA tB (packedDot (packedEnv A B batch) tA tB n b globalRow globalCol vzero)
          (aTexel (packedEnv A B batch) tA b globalRow n) (bTexel (packedEnv A B batch) tB b globalCol n)"
    by (simp add: packedDot_def)
  also have "\<dots> = referenceTexel tA tB A B (2 * Suc n) b globalRow globalCol"
    unfolding Suc.IH
    by (simp only: upt_double_Suc referenceTexel_def matMulReference_def fold_append comp_def)
       (simp add: packedTexel_def Let_def madd_def vadd_def vmul_def aSwizzle_def bSwizzle_def
          aTexel_def bTexel_def packedEnv_def add.assoc)
  finally show ?case .
qed

text \<open>
  \<open>MatMulPackedProgramCS\<close>: every store of a workgroup carries the reference texel
  of its position, for any tile size, whether or not it divides the packed shared
  dimension.
\<close>

lemma mainCS_computes_reference:
  fixes A B :: "nat \<Rightarrow> nat \<Rightarrow> nat \<Rightarrow> 'a::semiring_0"
  assumes TS: "0 < TS"
    and batch: "\<And>r c. r < TS \<Longrightarrow> c < TS \<Longrightarrow> batch (TS * fst wg + c) (TS * snd wg + r) = b"
  shows "mainCS (packedEnv A B batch) tA tB sdp TS wg sh0 =
         map (\<lambda>th. ((TS * fst wg + snd th, TS * snd wg + fst th),
                    referenceTexel tA tB A B (2 * sdp) b (TS * snd wg + fst th) (TS * fst wg + snd th)))
             (localThreads TS TS)"
proof -
  have "\<And>r c. r < TS \<Longrightarrow> c < TS \<Longrightarrow>
          getOutputCoordsX (packedEnv A B batch) (TS * fst wg + c) (TS * snd wg + r) = b"
    using batch by (simp add: packedEnv_def)
  from mainCS_tiled_is_untiled [OF TS this] show ?thesis
    by (simp only: packedDot_is_reference)
qed

text \<open>
  C1.  The four tiling variants do not compute the same function.  On the
  \<open>2 \<times> 2\<close> matrices \<open>A = (1 2; 3 4)\<close> and \<open>B\<close> the identity (one packed texel
  each, tile size 1, one workgroup) the reference product is \<open>(1 2; 3 4)\<close>, and
  \<open>MatMulPackedProgramCS\<close>, \<open>MatMulPackedProgramCSV3\<close> and
  \<open>MatMulPackedProgramCSV4\<close> store it whatever their locals held before.  The kernel
  of \<open>MatMulPackedProgramCSV2\<close> accumulates into \<open>vec4 result[WPT]\<close> without ever
  assigning it: started on the content \<open>(5, 5, 5, 5)\<close> it stores \<open>(6, 7, 8, 9)\<close>.
\<close>

theorem uninitialised_accumulator_in_V2:
  "referenceTexel False False exampleA exampleB 2 0 0 0 = Vec4 1 2 3 4 \<and>
   mainCS (packedEnv exampleA exampleB (\<lambda>x y. 0)) False False 1 1 (0, 0) exampleShared
     = [((0, 0), Vec4 1 2 3 4)] \<and>
   mainCSV3 (packedEnv exampleA exampleB (\<lambda>x y. 0)) False False 1 (1, 2, 2) 1 1 (0, 0) exampleShared
       (\<lambda>th. (\<lambda>w. Vec4 5 5 5 5, \<lambda>r c. Vec4 5 5 5 5))
     = [((0, 0), Vec4 1 2 3 4)] \<and>
   mainCSV4 (packedEnv exampleA exampleB (\<lambda>x y. 0)) False False 1 (1, 2, 2) 1 1 1 (0, 0) exampleShared
       (\<lambda>th. (\<lambda>w. Vec4 5 5 5 5, \<lambda>r c. Vec4 5 5 5 5))
     = [((0, 0), Vec4 1 2 3 4)] \<and>
   mainCSV2 (packedEnv exampleA exampleB (\<lambda>x y. 0)) False False 1 1 1 (0, 0) exampleShared
       (\<lambda>th w. Vec4 5 5 5 5)
     = [((0, 0), Vec4 6 7 8 9)]"
  by code_simp

end
